theory Spec2Isabelle
  imports Main "HOL-Library.Sublist" "HOL-Library.Char_ord" "HOL-Library.List_Lexorder"
begin

chapter \<open>Cell, the Sphere packaging compiler: model\<close>

section \<open>Paths\<close>

text \<open>
  Modelled from the spec: \<^verbatim>\<open>path.c\<close> is not among the sources, only its callers are
  (\<^verbatim>\<open>fs.c\<close>, \<^verbatim>\<open>build.c\<close>, \<^verbatim>\<open>tool.c\<close>).  The spec (section 3, Path) describes a path as
  an ordered sequence of string hops plus the information whether it names a directory;
  the callers read the directory hops (\<^verbatim>\<open>path_num_hops\<close>, \<^verbatim>\<open>path_hop\<close>) and the final file
  name (\<^verbatim>\<open>path_filename\<close>, \<^verbatim>\<open>path_is_file\<close>) separately, so the record keeps them apart:
  \<open>leaf = None\<close> is the trailing-separator (directory) case.
\<close>

record path =
  hops :: "string list"
  leaf :: "string option"

text \<open>Splitting at the separator; hops never contain it.\<close>

fun split_path :: "string \<Rightarrow> string \<Rightarrow> string list" where
  "split_path acc [] = [acc]"
| "split_path acc (c # cs) =
     (if c = CHR ''/'' then acc # split_path [] cs else split_path (acc @ [c]) cs)"

definition path_new :: "string \<Rightarrow> path" where
  "path_new s =
     (let toks = split_path [] s;
          dirs = filter (\<lambda>t. t \<noteq> []) (butlast toks);
          lead = (if take 1 s = ''/'' then [[]] else [])
      in \<lparr>hops = lead @ dirs,
          leaf = (if last toks = [] then None else Some (last toks))\<rparr>)"

definition path_to_dir :: "path \<Rightarrow> path" where
  "path_to_dir p =
     (case leaf p of None \<Rightarrow> p | Some f \<Rightarrow> \<lparr>hops = hops p @ [f], leaf = None\<rparr>)"

definition path_new_dir :: "string \<Rightarrow> path" where
  "path_new_dir s = path_to_dir (path_new s)"

definition path_strip :: "path \<Rightarrow> path" where
  "path_strip p = p\<lparr>leaf := None\<rparr>"

definition path_num_hops :: "path \<Rightarrow> nat" where
  "path_num_hops p = length (hops p)"

definition path_hop :: "path \<Rightarrow> nat \<Rightarrow> string" where
  "path_hop p i = (if i < length (hops p) then hops p ! i else [])"

definition path_hop_is :: "path \<Rightarrow> nat \<Rightarrow> string \<Rightarrow> bool" where
  "path_hop_is p i s = (i < length (hops p) \<and> hops p ! i = s)"

definition path_is_file :: "path \<Rightarrow> bool" where
  "path_is_file p = (leaf p \<noteq> None)"

definition path_filename :: "path \<Rightarrow> string" where
  "path_filename p = (case leaf p of None \<Rightarrow> [] | Some f \<Rightarrow> f)"

definition path_remove_hop :: "path \<Rightarrow> nat \<Rightarrow> path" where
  "path_remove_hop p i = p\<lparr>hops := take i (hops p) @ drop (Suc i) (hops p)\<rparr>"

definition path_insert_hop :: "path \<Rightarrow> nat \<Rightarrow> string \<Rightarrow> path" where
  "path_insert_hop p i h = p\<lparr>hops := take i (hops p) @ h # drop i (hops p)\<rparr>"

text \<open>The rendering of a path: every hop followed by the separator, then the file name.\<close>

definition path_cstr :: "path \<Rightarrow> string" where
  "path_cstr p =
     (if hops p = [] \<and> leaf p = None then ''./''
      else concat (map (\<lambda>h. h @ ''/'') (hops p)) @ path_filename p)"

text \<open>
  Rootedness is the test for a platform-absolute path: a leading separator (an empty
  first component) or a drive letter.
\<close>

definition path_is_rooted :: "path \<Rightarrow> bool" where
  "path_is_rooted p =
     (case (case hops p of h # _ \<Rightarrow> Some h | [] \<Rightarrow> leaf p) of
        None \<Rightarrow> False
      | Some h \<Rightarrow> h = [] \<or> (2 \<le> length h \<and> h ! 1 = CHR '':''))"

text \<open>Rebase prepends another path (spec, section 3).\<close>

definition path_rebase :: "path \<Rightarrow> path \<Rightarrow> path" where
  "path_rebase p root = p\<lparr>hops := hops root @ hops p\<rparr>"

definition path_append :: "path \<Rightarrow> string \<Rightarrow> path" where
  "path_append p s = (let q = path_new s in \<lparr>hops = hops p @ hops q, leaf = leaf q\<rparr>)"

text \<open>
  Collapse folds \<^verbatim>\<open>.\<close> and \<^verbatim>\<open>..\<close> hops with a hard stop at the root: with
  \<open>uplevel\<close> a \<^verbatim>\<open>..\<close> that has nothing left to cancel is dropped (it never escapes), and the
  root marker of an absolute path is never cancelled; without \<open>uplevel\<close> such a \<^verbatim>\<open>..\<close> is
  kept.  The first argument of \<open>collapse_hops\<close> is the part already folded.
\<close>

fun collapse_hops :: "bool \<Rightarrow> string list \<Rightarrow> string list \<Rightarrow> string list" where
  "collapse_hops up acc [] = acc"
| "collapse_hops up acc (h # hs) =
     (if h = ''.'' then collapse_hops up acc hs
      else if h = ''..'' then
        (if acc = [] \<or> acc = [[]] \<or> last acc = ''..''
         then collapse_hops up (if up then acc else acc @ [h]) hs
         else collapse_hops up (butlast acc) hs)
      else collapse_hops up (acc @ [h]) hs)"

definition path_collapse :: "path \<Rightarrow> bool \<Rightarrow> path" where
  "path_collapse p up = p\<lparr>hops := collapse_hops up [] (hops p)\<rparr>"

section \<open>The sandboxed file system (fs.c)\<close>

text \<open>\<^verbatim>\<open>struct fs\<close>: the four real roots; \<^verbatim>\<open>user_path\<close> may be \<^verbatim>\<open>NULL\<close>.\<close>

record fs =
  root_path :: path
  game_path :: path
  system_path :: path
  user_path :: "path option"

text \<open>
  \<^verbatim>\<open>resolve\<close> (fs.c, lines 484-526).  \<open>resolve_path\<close> is the path the function has built
  when it reaches \<^verbatim>\<open>strdup(path_cstr(path))\<close>; \<open>None\<close> is the \<^verbatim>\<open>on_error\<close> exit.
\<close>

definition resolve_path :: "fs \<Rightarrow> string \<Rightarrow> path option" where
  "resolve_path f name =
     (let p = path_new name in
      if path_is_rooted p then None
      else if path_num_hops p = 0 then Some (path_rebase p (root_path f))
      else if path_hop_is p 0 ''$'' then Some (path_rebase (path_remove_hop p 0) (root_path f))
      else if path_hop_is p 0 ''@'' then Some (path_rebase (path_remove_hop p 0) (game_path f))
      else if path_hop_is p 0 ''#'' then Some (path_rebase (path_remove_hop p 0) (system_path f))
      else if path_hop_is p 0 ''~'' then
        (case user_path f of
           None \<Rightarrow> None
         | Some u \<Rightarrow> Some (path_rebase (path_remove_hop p 0) u))
      else Some (path_rebase p (root_path f)))"

definition resolve :: "fs \<Rightarrow> string \<Rightarrow> string option" where
  "resolve f name = map_option path_cstr (resolve_path f name)"

text \<open>
  Where a real path leads once the host interprets its \<^verbatim>\<open>.\<close> and \<^verbatim>\<open>..\<close> components
  (the hops and the file name), and whether that is inside a root.  This is the yardstick for sandbox safety; it is not
  part of the program.
\<close>

fun host_walk :: "string list \<Rightarrow> string list \<Rightarrow> string list" where
  "host_walk acc [] = acc"
| "host_walk acc (h # hs) =
     (if h = ''.'' then host_walk acc hs
      else if h = ''..'' then
        (if acc = [] \<or> last acc = ''..'' then host_walk (acc @ [h]) hs
         else host_walk (butlast acc) hs)
      else host_walk (acc @ [h]) hs)"

definition components :: "path \<Rightarrow> string list" where
  "components p = hops p @ (case leaf p of None \<Rightarrow> [] | Some n \<Rightarrow> [n])"

definition in_sandbox :: "path \<Rightarrow> path \<Rightarrow> bool" where
  "in_sandbox root p = prefix (host_walk [] (hops root)) (host_walk [] (components p))"

text \<open>The root a logical path selects, and the remainder after its prefix hop.\<close>

definition selected_root :: "fs \<Rightarrow> path \<Rightarrow> path option" where
  "selected_root f p =
     (if path_hop_is p 0 ''@'' then Some (game_path f)
      else if path_hop_is p 0 ''#'' then Some (system_path f)
      else if path_hop_is p 0 ''~'' then user_path f
      else Some (root_path f))"

definition remainder :: "path \<Rightarrow> path" where
  "remainder p =
     (if path_hop_is p 0 ''$'' \<or> path_hop_is p 0 ''@'' \<or> path_hop_is p 0 ''#''
         \<or> path_hop_is p 0 ''~''
      then path_remove_hop p 0 else p)"

text \<open>
  \<^verbatim>\<open>fs_full_path\<close> (fs.c, lines 102-139).  The recursion of the source is one level
  deep (the base directory is made full with no base of its own), so the model has the
  base-free function first.
\<close>

definition is_prefix_hop :: "string \<Rightarrow> bool" where
  "is_prefix_hop h = (h = ''@'' \<or> h = ''#'' \<or> h = ''~'' \<or> h = ''$'')"

definition finish_full_path :: "path \<Rightarrow> path" where
  "finish_full_path p =
     (let prefix = path_hop p 0 in
      path_insert_hop (path_collapse (path_remove_hop p 0) True) 0 prefix)"

definition fs_full_path0 :: "string \<Rightarrow> path" where
  "fs_full_path0 name =
     (let p = path_new name in
      if path_is_rooted p then p
      else if is_prefix_hop (if path_num_hops p > 0 then path_hop p 0 else [])
        then finish_full_path p
        else finish_full_path (path_insert_hop p 0 ''$''))"

definition fs_full_path :: "string \<Rightarrow> string option \<Rightarrow> path" where
  "fs_full_path name base_dir_name =
     (case base_dir_name of
        None \<Rightarrow> fs_full_path0 name
      | Some b \<Rightarrow>
          (let p = path_new name in
           if path_is_rooted p then p
           else if is_prefix_hop (if path_num_hops p > 0 then path_hop p 0 else [])
             then finish_full_path p
             else finish_full_path (path_rebase p (path_to_dir (fs_full_path0 b)))))"

section \<open>The host and the world a build runs in\<close>

text \<open>
  The host's file system is outside the program; the model keeps what the program can
  observe of it through \<^verbatim>\<open>stat\<close>, \<^verbatim>\<open>unlink\<close>, \<^verbatim>\<open>mkdir\<close>, \<^verbatim>\<open>utime\<close> and the stdio calls: a
  partial map from real path names to nodes.  A name is looked up without its trailing
  separators, as the host does for a directory; names are compared as texts, so that
  two names of one file are two entries of the map.
\<close>

datatype node = File (mtime: int) (content: string) | Dir (mtime: int)

type_synonym disk = "string \<rightharpoonup> node"

definition host_key :: "string \<Rightarrow> string" where
  "host_key s = rev (dropWhile (\<lambda>c. c = CHR ''/'') (rev s))"

definition host_stat :: "disk \<Rightarrow> string \<Rightarrow> node option" where
  "host_stat d name = d (host_key name)"

definition host_unlink :: "disk \<Rightarrow> string \<Rightarrow> int \<times> disk" where
  "host_unlink d name =
     (case d (host_key name) of
        Some (File m c) \<Rightarrow> (0, d(host_key name := None))
      | _ \<Rightarrow> (-1, d))"

definition host_utime :: "disk \<Rightarrow> int \<Rightarrow> string \<Rightarrow> int \<times> disk" where
  "host_utime d t name =
     (case d (host_key name) of
        Some (File m c) \<Rightarrow> (0, d(host_key name \<mapsto> File t c))
      | Some (Dir m) \<Rightarrow> (0, d(host_key name \<mapsto> Dir t))
      | None \<Rightarrow> (-1, d))"

text \<open>
  Creating a file or emptying it, as \<^verbatim>\<open>fopen\<close> does for the modes \<^verbatim>\<open>w\<close> and \<^verbatim>\<open>w+\<close>: a
  directory at the name is refused, an existing file is replaced, and a new file is
  made only in a directory that exists.  A name without a directory part lies in the
  working directory, which is always there.
\<close>

definition parent_name :: "string \<Rightarrow> string" where
  "parent_name name = rev (drop 1 (dropWhile (\<lambda>c. c \<noteq> CHR ''/'') (rev (host_key name))))"

definition host_is_dir :: "disk \<Rightarrow> string \<Rightarrow> bool" where
  "host_is_dir d name =
     (host_key name = [] \<or> host_key name = ''.''
      \<or> (case d (host_key name) of Some (Dir m) \<Rightarrow> True | _ \<Rightarrow> False))"

text \<open>Writing a whole file (\<^verbatim>\<open>fopen\<close> for writing, \<^verbatim>\<open>fwrite\<close>, \<^verbatim>\<open>fclose\<close>).\<close>

definition host_write :: "disk \<Rightarrow> int \<Rightarrow> string \<Rightarrow> string \<Rightarrow> bool \<times> disk" where
  "host_write d t name bytes =
     (case d (host_key name) of
        Some (Dir m) \<Rightarrow> (False, d)
      | Some (File m c) \<Rightarrow> (True, d(host_key name \<mapsto> File t bytes))
      | None \<Rightarrow>
          if host_is_dir d (parent_name name)
          then (True, d(host_key name \<mapsto> File t bytes)) else (False, d))"

definition host_read :: "disk \<Rightarrow> string \<Rightarrow> string option" where
  "host_read d name =
     (case d (host_key name) of Some (File m c) \<Rightarrow> Some c | _ \<Rightarrow> None)"

text \<open>
  Modelled from the spec: \<^verbatim>\<open>path_mkdir\<close> (path.c) is not among the sources.  It makes
  sure the directory a path names exists, creating each missing directory on the way
  (spec 4.3: copy implicitly creates intermediate directories; 4.9 step 1).
\<close>

fun mkdir_all :: "string list \<Rightarrow> string list \<Rightarrow> int \<Rightarrow> disk \<Rightarrow> bool \<times> disk" where
  "mkdir_all pre [] t d = (True, d)"
| "mkdir_all pre (h # hs) t d =
     (let k = host_key (concat (map (\<lambda>x. x @ ''/'') (pre @ [h]))) in
      case d k of
        None \<Rightarrow> mkdir_all (pre @ [h]) hs t (d(k \<mapsto> Dir t))
      | Some (Dir m) \<Rightarrow> mkdir_all (pre @ [h]) hs t d
      | Some (File m c) \<Rightarrow> (False, d))"

definition path_mkdir :: "path \<Rightarrow> int \<Rightarrow> disk \<Rightarrow> bool \<times> disk" where
  "path_mkdir p t d = mkdir_all [] (hops p) t d"

text \<open>
  Modelled from the spec: \<^verbatim>\<open>tinydir_copy\<close> is not among the sources.  It copies the
  bytes of one file to another name (spec 4.3), refusing an existing destination when
  asked to; the copy keeps the time stamp of the source, which is why the install tool
  touches the destination afterwards.
\<close>

definition tinydir_copy :: "disk \<Rightarrow> string \<Rightarrow> string \<Rightarrow> bool \<Rightarrow> int \<times> disk" where
  "tinydir_copy d src dst fail_if_exists =
     (case d (host_key src) of
        Some (File m c) \<Rightarrow>
          (case d (host_key dst) of
             Some (Dir m') \<Rightarrow> (-1, d)
           | Some (File m' c') \<Rightarrow>
               if fail_if_exists then (-1, d) else (0, d(host_key dst \<mapsto> File m c))
           | None \<Rightarrow> (0, d(host_key dst \<mapsto> File m c)))
      | _ \<Rightarrow> (-1, d))"

subsection \<open>The file I/O of fs.c on the host\<close>

text \<open>
  Each function resolves its names first and fails on a sandbox violation (\<open>None\<close>, or
  the status \<open>-1\<close>).  \<^verbatim>\<open>fslurp\<close> and \<^verbatim>\<open>fspew\<close>, which \<^verbatim>\<open>fs_fslurp\<close> and \<^verbatim>\<open>fs_fspew\<close>
  call on the resolved name, are not among the sources: they read and write a whole
  file (\<open>host_read\<close>, \<open>host_write\<close>).
\<close>

definition fs_stat :: "fs \<Rightarrow> disk \<Rightarrow> string \<Rightarrow> node option" where
  "fs_stat f d name =
     (case resolve f name of None \<Rightarrow> None | Some r \<Rightarrow> host_stat d r)"

definition fs_fexist :: "fs \<Rightarrow> disk \<Rightarrow> string \<Rightarrow> bool" where
  "fs_fexist f d name =
     (case fs_stat f d name of Some (File m c) \<Rightarrow> True | _ \<Rightarrow> False)"

definition fs_dir_exists :: "fs \<Rightarrow> disk \<Rightarrow> string \<Rightarrow> bool" where
  "fs_dir_exists f d name =
     (case fs_stat f d name of Some (Dir m) \<Rightarrow> True | _ \<Rightarrow> False)"

definition fs_unlink :: "fs \<Rightarrow> disk \<Rightarrow> string \<Rightarrow> int \<times> disk" where
  "fs_unlink f d name =
     (case resolve f name of None \<Rightarrow> (-1, d) | Some r \<Rightarrow> host_unlink d r)"

definition fs_utime :: "fs \<Rightarrow> disk \<Rightarrow> int \<Rightarrow> string \<Rightarrow> int \<times> disk" where
  "fs_utime f d t name =
     (case resolve f name of None \<Rightarrow> (-1, d) | Some r \<Rightarrow> host_utime d t r)"

definition fs_mkdir :: "fs \<Rightarrow> disk \<Rightarrow> int \<Rightarrow> string \<Rightarrow> int \<times> disk" where
  "fs_mkdir f d t dirname =
     (case resolve f dirname of
        None \<Rightarrow> (-1, d)
      | Some r \<Rightarrow>
          (let (ok, d') = path_mkdir (path_new_dir r) t d in (if ok then 0 else -1, d')))"

definition fs_fslurp :: "fs \<Rightarrow> disk \<Rightarrow> string \<Rightarrow> string option" where
  "fs_fslurp f d name =
     (case resolve f name of None \<Rightarrow> None | Some r \<Rightarrow> host_read d r)"

definition fs_fspew :: "fs \<Rightarrow> disk \<Rightarrow> int \<Rightarrow> string \<Rightarrow> string \<Rightarrow> bool \<times> disk" where
  "fs_fspew f d t name bytes =
     (case resolve f name of None \<Rightarrow> (False, d) | Some r \<Rightarrow> host_write d t r bytes)"

definition fs_fcopy :: "fs \<Rightarrow> disk \<Rightarrow> int \<Rightarrow> string \<Rightarrow> string \<Rightarrow> bool \<Rightarrow> int \<times> disk" where
  "fs_fcopy f d t destination source overwrite =
     (case (resolve f destination, resolve f source) of
        (Some resolved_dest, Some resolved_src) \<Rightarrow>
          (let (ok, d') = path_mkdir (path_new resolved_dest) t d
           in tinydir_copy d' resolved_src resolved_dest (\<not> overwrite))
      | _ \<Rightarrow> (-1, d))"

section \<open>The visor\<close>

text \<open>
  Modelled from the spec: \<^verbatim>\<open>visor.c\<close> is not among the sources.  Spec 4.4: a stack of
  nested operation scopes; \<^verbatim>\<open>begin_op\<close> pushes, \<^verbatim>\<open>end_op\<close> pops; \<^verbatim>\<open>error\<close> and \<^verbatim>\<open>warn\<close>
  increment their counters and emit a message; the visor also accumulates the list of
  artifact file names of the run.
\<close>

datatype message = OpMsg string | ErrorMsg string | WarnMsg string | PrintMsg string

record visor =
  num_errors :: nat
  num_warns :: nat
  ops :: "string list"
  messages :: "message list"
  filenames :: "string list"

definition visor_begin_op :: "visor \<Rightarrow> string \<Rightarrow> visor" where
  "visor_begin_op v s = v\<lparr>ops := s # ops v, messages := messages v @ [OpMsg s]\<rparr>"

definition visor_end_op :: "visor \<Rightarrow> visor" where
  "visor_end_op v = v\<lparr>ops := tl (ops v)\<rparr>"

definition visor_error :: "visor \<Rightarrow> string \<Rightarrow> visor" where
  "visor_error v s =
     v\<lparr>num_errors := Suc (num_errors v), messages := messages v @ [ErrorMsg s]\<rparr>"

definition visor_warn :: "visor \<Rightarrow> string \<Rightarrow> visor" where
  "visor_warn v s =
     v\<lparr>num_warns := Suc (num_warns v), messages := messages v @ [WarnMsg s]\<rparr>"

definition visor_print :: "visor \<Rightarrow> string \<Rightarrow> visor" where
  "visor_print v s = v\<lparr>messages := messages v @ [PrintMsg s]\<rparr>"

definition visor_num_errors :: "visor \<Rightarrow> nat" where
  "visor_num_errors v = num_errors v"

definition visor_num_warns :: "visor \<Rightarrow> nat" where
  "visor_num_warns v = num_warns v"

definition visor_filenames :: "visor \<Rightarrow> string list" where
  "visor_filenames v = filenames v"

text \<open>Decimal rendering, for the \<^verbatim>\<open>%d\<close> of the message formats.\<close>

fun show_nat :: "nat \<Rightarrow> string" where
  "show_nat n =
     (if n < 10 then [char_of (48 + n)]
      else show_nat (n div 10) @ [char_of (48 + n mod 10)])"

definition show_int :: "int \<Rightarrow> string" where
  "show_int i = (if i < 0 then ''-'' @ show_nat (nat (- i)) else show_nat (nat i))"

section \<open>Script values and the state of a build\<close>

text \<open>
  The values of the script engine the build code inspects.  A number is kept as the
  integer \<^verbatim>\<open>duk_require_int\<close> reads from it (elsewhere the code only tests whether a
  value is a string); an object is a reference, so that two values are the same object
  exactly when they are equal.
\<close>

datatype jsval = Undefined | Null | Boolean bool | Number int | String string | Object nat

datatype error_kind = Error | RangeError | ReferenceError | SyntaxError | TypeError | URIError

record js_error =
  kind :: error_kind
  message :: string
  fileName :: string
  lineNumber :: int

text \<open>A module record of the CommonJS loader, as \<^verbatim>\<open>eval_cjs_module\<close> builds it.\<close>

record module =
  exports :: jsval
  mod_filename :: string
  mod_id :: string
  loaded :: bool

text \<open>
  Everything a build mutates: the host's files and clock, the visor, and in the script
  engine's stash the game descriptor, the module cache (file name to module object) and
  the transpiler slot; \<open>objects\<close> holds the module objects by reference and \<open>next_ref\<close>
  is the next unused reference.
\<close>

record world =
  disk :: disk
  clock :: int
  vis :: visor
  descriptor :: "string \<rightharpoonup> jsval"
  moduleCache :: "string \<rightharpoonup> nat"
  objects :: "nat \<rightharpoonup> module"
  next_ref :: nat
  typescript :: bool

section \<open>Tools (tool.c)\<close>

text \<open>
  \<^verbatim>\<open>struct tool\<close>: the verb and the script callback.  A callback is any script
  function of an output name and input names: it may change the world and either returns
  or throws.  A \<^verbatim>\<open>NULL\<close> tool is \<open>None\<close>.
\<close>

record tool =
  verb :: string
  callback :: "string \<Rightarrow> string list \<Rightarrow> world \<Rightarrow> js_error option \<times> world"

text \<open>\<^verbatim>\<open>tool_run\<close> (tool.c, lines 83-161), in the three stages of the source.\<close>

definition tool_begin :: "tool \<Rightarrow> fs \<Rightarrow> path \<Rightarrow> world \<Rightarrow> world" where
  "tool_begin t f out_path w =
     (let v = visor_begin_op (vis w) (verb t @ '' '' @ [CHR 0x27] @ path_cstr out_path @ [CHR 0x27]);
          (r, d) = fs_mkdir f (disk w) (clock w) (path_cstr (path_strip out_path))
      in w\<lparr>disk := d, vis := v\<rparr>)"

definition last_mtime :: "fs \<Rightarrow> path \<Rightarrow> world \<Rightarrow> int" where
  "last_mtime f out_path w =
     (case fs_stat f (disk w) (path_cstr out_path) of Some n \<Rightarrow> mtime n | None \<Rightarrow> 0)"

definition tool_call :: "tool \<Rightarrow> path \<Rightarrow> path list \<Rightarrow> world \<Rightarrow> bool \<times> world" where
  "tool_call t out_path in_paths w =
     (case callback t (path_cstr out_path) (map path_cstr in_paths) w of
        (None, w') \<Rightarrow> (True, w')
      | (Some e, w') \<Rightarrow>
          (False, w'\<lparr>vis := visor_print (visor_error (vis w') (message e))
             (''@ ['' @ fileName e @ '':'' @ show_int (lineNumber e) @ '']'')\<rparr>))"

definition tool_finish :: "fs \<Rightarrow> path \<Rightarrow> int \<Rightarrow> bool \<Rightarrow> world \<Rightarrow> bool \<times> world" where
  "tool_finish f out_path prev result_ok w =
     (if result_ok then
        (case fs_stat f (disk w) (path_cstr out_path) of
           None \<Rightarrow>
             (False, w\<lparr>vis := visor_error (vis w) ''target file not found after build''\<rparr>)
         | Some stats \<Rightarrow>
             if mtime stats = prev
             then (True, w\<lparr>vis := visor_warn (vis w) ''target file unchanged after build''\<rparr>)
             else (True, w))
      else (False, w\<lparr>disk := snd (fs_unlink f (disk w) (path_cstr out_path))\<rparr>))"

definition tool_run :: "tool option \<Rightarrow> fs \<Rightarrow> path \<Rightarrow> path list \<Rightarrow> world \<Rightarrow> bool \<times> world" where
  "tool_run the_tool f out_path in_paths w =
     (case the_tool of
        None \<Rightarrow> (True, w)
      | Some t \<Rightarrow>
          (let w1 = tool_begin t f out_path w;
               prev = last_mtime f out_path w1;
               errors_before = visor_num_errors (vis w1);
               (called_ok, w2) = tool_call t out_path in_paths w1;
               result_ok = (if visor_num_errors (vis w2) > errors_before then False else called_ok);
               (result, w3) = tool_finish f out_path prev result_ok w2
           in (result, w3\<lparr>vis := visor_end_op (vis w3)\<rparr>)))"

section \<open>The install tool (build.c)\<close>

text \<open>
  \<^verbatim>\<open>install_target\<close> (build.c, lines 720-743): the callback of the install tool.  Its
  arguments are the target name and the array of source names; \<^verbatim>\<open>duk_require_string\<close>
  throws on the missing first element of an empty array.
\<close>

definition type_error :: "string \<Rightarrow> js_error" where
  "type_error s = \<lparr>kind = TypeError, message = s, fileName = [], lineNumber = 0\<rparr>"

definition install_target :: "fs \<Rightarrow> string \<Rightarrow> string list \<Rightarrow> world \<Rightarrow> (js_error + bool) \<times> world" where
  "install_target f target_path sources w =
     (case sources of
        [] \<Rightarrow> (Inl (type_error ''string required''), w)
      | source_path # rest \<Rightarrow>
          (let (result, d1) = fs_fcopy f (disk w) (clock w) target_path source_path True;
               d2 = (if result = 0 then snd (fs_utime f d1 (clock w) target_path) else d1)
           in (Inr (result = 0), w\<lparr>disk := d2\<rparr>)))"

text \<open>The install tool as \<^verbatim>\<open>build_new\<close> creates it: verb \<^verbatim>\<open>installing\<close>.\<close>

definition install_tool :: "fs \<Rightarrow> tool" where
  "install_tool f =
     \<lparr>verb = ''installing'',
      callback = (\<lambda>out ins w. case install_target f out ins w of
                    (Inl e, w') \<Rightarrow> (Some e, w')
                  | (Inr b, w') \<Rightarrow> (None, w'))\<rparr>"

section \<open>The script engine's services\<close>

text \<open>
  The script engine and the transpiler are collaborators outside the program (spec 1);
  the build code calls them, and the model takes what they compute as parameters:
  the JSON encoder on the three shapes it is given (an array of strings, the descriptor
  object, the file map); the JSON decoder; the decoder followed by the read of a string
  \<^verbatim>\<open>main\<close> property (\<open>None\<close> when the text does not decode to an object with one); the
  compiler (the error when a text does not compile); the transpiler (its first
  argument is \<^verbatim>\<open>noImplicitUseStrict\<close>); and the call of a compiled module function on
  (code, \<^verbatim>\<open>__filename\<close>, \<^verbatim>\<open>__dirname\<close>, module object), which may change the world and
  returns or throws.
\<close>

record engine =
  json_encode_strings :: "string list \<Rightarrow> string"
  json_encode_object :: "(string \<rightharpoonup> jsval) \<Rightarrow> string"
  json_encode_filemap :: "(string \<times> string) list \<Rightarrow> string"
  json_decode :: "string \<Rightarrow> js_error + jsval"
  package_main :: "string \<Rightarrow> string option"
  compile :: "string \<Rightarrow> js_error option"
  transpile :: "bool \<Rightarrow> string \<Rightarrow> js_error + string"
  run_module :: "string \<Rightarrow> string \<Rightarrow> string \<Rightarrow> nat \<Rightarrow> world \<Rightarrow> js_error option \<times> world"

definition get_prop :: "(string \<rightharpoonup> jsval) \<Rightarrow> string \<Rightarrow> jsval" where
  "get_prop obj k = (case obj k of None \<Rightarrow> Undefined | Some v \<Rightarrow> v)"

definition is_string :: "jsval \<Rightarrow> bool" where
  "is_string v = (case v of String s \<Rightarrow> True | _ \<Rightarrow> False)"

text \<open>\<^verbatim>\<open>duk_to_string\<close>, which the code below applies to string values only.\<close>

definition to_string :: "jsval \<Rightarrow> string" where
  "to_string v = (case v of String s \<Rightarrow> s | _ \<Rightarrow> [])"

definition quoted :: "string \<Rightarrow> string" where
  "quoted s = [CHR 0x27] @ s @ [CHR 0x27]"

section \<open>Targets and the build driver (build.c)\<close>

text \<open>
  Modelled from the spec: \<^verbatim>\<open>target.c\<close> is not among the sources.  The driver reads a
  target through \<^verbatim>\<open>target_path\<close> and \<^verbatim>\<open>target_source_path\<close> (\<^verbatim>\<open>NULL\<close> without a source)
  and builds it with \<^verbatim>\<open>target_build\<close>, which the driver's model takes as a parameter: any
  change of the world.
\<close>

record target =
  target_name :: path
  target_path :: path
  target_source_path :: "path option"

text \<open>\<^verbatim>\<open>struct build\<close>; the visor and the script context are in the world.\<close>

record build =
  artifacts :: "string list"
  fs_of :: fs
  targets :: "target list"
  timestamp :: int

text \<open>
  The conflict check of \<^verbatim>\<open>build_run\<close> (build.c, lines 369-393).  The loop state is
  (\<^verbatim>\<open>filename\<close>, \<^verbatim>\<open>last_filename\<close>, \<^verbatim>\<open>num_matches\<close>, visor); \<^verbatim>\<open>filename\<close> is not
  initialised by the source and is read only after the loop has set it.
  \<^verbatim>\<open>vector_sort\<close> is \<^verbatim>\<open>qsort\<close> with \<^verbatim>\<open>strcmp\<close> on the path names; the check reads the
  names only, so any sort by name gives the same run of the loop.
\<close>

definition conflict_message :: "nat \<Rightarrow> string \<Rightarrow> string" where
  "conflict_message n name = show_nat n @ ''-way conflict '' @ quoted name"

fun scan_targets ::
  "string list \<Rightarrow> string \<times> string \<times> nat \<times> visor \<Rightarrow> string \<times> string \<times> nat \<times> visor" where
  "scan_targets [] st = st"
| "scan_targets (name # rest) (filename, last_filename, num_matches, v) =
     (if name = last_filename
      then scan_targets rest (name, name, Suc num_matches, v)
      else scan_targets rest
        (name, name, 1,
         if num_matches > 1 then visor_error v (conflict_message num_matches name) else v))"

definition sort_targets_by_path :: "target list \<Rightarrow> target list" where
  "sort_targets_by_path ts = sort_key (\<lambda>t. path_cstr (target_path t)) ts"

definition detect_conflicts :: "target list \<Rightarrow> visor \<Rightarrow> visor" where
  "detect_conflicts ts v =
     (let sorted_targets = sort_targets_by_path ts;
          (filename, last_filename, num_matches, v') =
             scan_targets (map (\<lambda>t. path_cstr (target_path t)) sorted_targets) ([], [], 1, v)
      in if num_matches > 1 then visor_error v' (conflict_message num_matches filename) else v')"

text \<open>
  The runs of equal names in a list, with their lengths, and the errors the conflict
  check reports for them: one for each run of two or more, named as the source names
  it.
\<close>

fun runs_from :: "string \<Rightarrow> nat \<Rightarrow> string list \<Rightarrow> (string \<times> nat) list" where
  "runs_from cur n [] = [(cur, n)]"
| "runs_from cur n (x # xs) =
     (if x = cur then runs_from cur (Suc n) xs else (cur, n) # runs_from x 1 xs)"

definition runs :: "string list \<Rightarrow> (string \<times> nat) list" where
  "runs xs = (case xs of [] \<Rightarrow> [] | x # rest \<Rightarrow> runs_from x 1 rest)"

fun reported :: "(string \<times> nat) list \<Rightarrow> string list" where
  "reported [] = []"
| "reported [(x, k)] = (if k > 1 then [conflict_message k x] else [])"
| "reported ((x, k) # (y, j) # rest) =
     (if k > 1 then [conflict_message k y] else []) @ reported ((y, j) # rest)"

text \<open>The test after the loop, on the loop's final state.\<close>

definition close_run :: "string \<times> string \<times> nat \<times> visor \<Rightarrow> visor" where
  "close_run st = (case st of (filename, last_filename, num_matches, v) \<Rightarrow>
     if num_matches > 1 then visor_error v (conflict_message num_matches filename) else v)"

fun build_targets ::
  "(target \<Rightarrow> bool \<Rightarrow> world \<Rightarrow> world) \<Rightarrow> target list \<Rightarrow> bool \<Rightarrow> world \<Rightarrow> world" where
  "build_targets target_build [] rebuild_all w = w"
| "build_targets target_build (t # ts) rebuild_all w =
     (if path_num_hops (target_path t) = 0 \<or> \<not> path_hop_is (target_path t) 0 ''@''
      then build_targets target_build ts rebuild_all w
      else build_targets target_build ts rebuild_all (target_build t rebuild_all w))"

text \<open>\<^verbatim>\<open>clean_old_artifacts\<close> (build.c, lines 465-492).\<close>

fun remove_artifacts :: "fs \<Rightarrow> bool \<Rightarrow> string list \<Rightarrow> world \<Rightarrow> world" where
  "remove_artifacts f keep_targets [] w = w"
| "remove_artifacts f keep_targets (a # rest) w =
     (if keep_targets \<and> a \<in> set (visor_filenames (vis w))
      then remove_artifacts f keep_targets rest w
      else remove_artifacts f keep_targets rest
        (w\<lparr>vis := visor_end_op (visor_begin_op (vis w) (''removing '' @ quoted a)),
           disk := snd (fs_unlink f (disk w) a)\<rparr>))"

definition clean_old_artifacts :: "build \<Rightarrow> bool \<Rightarrow> world \<Rightarrow> world" where
  "clean_old_artifacts b keep_targets w =
     (let w1 = w\<lparr>vis := visor_begin_op (vis w) ''cleaning up old build artifacts''\<rparr>;
          w2 = remove_artifacts (fs_of b) keep_targets (artifacts b) w1
      in w2\<lparr>vis := visor_end_op (vis w2)\<rparr>)"

subsection \<open>Manifests\<close>

text \<open>
  \<^verbatim>\<open>sscanf(s, "%dx%d", &width, &height)\<close>: each \<^verbatim>\<open>%d\<close> skips white space, takes an
  optional sign and at least one decimal digit; the \<^verbatim>\<open>x\<close> must follow the first number
  at once; whatever follows the second number is left unread.  The result is \<open>Some\<close>
  exactly when the call returns 2.

  Both numbers are stored in an \<^verbatim>\<open>int\<close>.  For digits that denote a value out of its
  range the C standard fixes no result; the model stores what the C library of a 64-bit
  Linux host stores: the digits are converted with \<^verbatim>\<open>strtol\<close>, which holds the value
  to the range of \<^verbatim>\<open>long\<close> (\<open>c_long\<close>), and the conversion to \<^verbatim>\<open>int\<close> keeps the low 32
  bits (\<open>c_int\<close>).
\<close>

definition is_space :: "char \<Rightarrow> bool" where
  "is_space c = (c = CHR '' '' \<or> c = CHR 0x09 \<or> c = CHR 0x0A \<or> c = CHR 0x0B
                 \<or> c = CHR 0x0C \<or> c = CHR 0x0D)"

definition is_digit :: "char \<Rightarrow> bool" where
  "is_digit c = (CHR ''0'' \<le> c \<and> c \<le> CHR ''9'')"

definition digits_value :: "string \<Rightarrow> int" where
  "digits_value ds = foldl (\<lambda>a c. 10 * a + (of_char c - 48)) 0 ds"

definition c_long :: "int \<Rightarrow> int" where
  "c_long v = max (- (2 ^ 63)) (min (2 ^ 63 - 1) v)"

definition c_int :: "int \<Rightarrow> int" where
  "c_int v = (v + 2 ^ 31) mod 2 ^ 32 - 2 ^ 31"

definition scan_int :: "string \<Rightarrow> (int \<times> string) option" where
  "scan_int s =
     (let s1 = dropWhile is_space s;
          (sign, s2) = (case s1 of
                          c # r \<Rightarrow> if c = CHR ''-'' then (- 1, r)
                                   else if c = CHR ''+'' then (1, r) else (1, s1)
                        | [] \<Rightarrow> (1, s1));
          ds = takeWhile is_digit s2
      in if ds = [] then None
         else Some (c_int (c_long (sign * digits_value ds)), dropWhile is_digit s2))"

definition sscanf_dxd :: "string \<Rightarrow> (int \<times> int) option" where
  "sscanf_dxd s =
     (case scan_int s of
        None \<Rightarrow> None
      | Some (width, r) \<Rightarrow>
          (case r of
             c # r' \<Rightarrow>
               if c = CHR ''x''
               then (case scan_int r' of None \<Rightarrow> None | Some (height, r'') \<Rightarrow> Some (width, height))
               else None
           | [] \<Rightarrow> None))"

text \<open>
  The texts the scan accepts, in words: white space, a sign or none, and a number of at
  least one digit; the value a sign and digits denote.
\<close>

definition blank :: "string \<Rightarrow> bool" where
  "blank s = list_all is_space s"

definition sign_text :: "string \<Rightarrow> bool" where
  "sign_text s = (s = [] \<or> s = ''+'' \<or> s = ''-'')"

definition digit_text :: "string \<Rightarrow> bool" where
  "digit_text s = (s \<noteq> [] \<and> list_all is_digit s)"

definition signed_value :: "string \<Rightarrow> string \<Rightarrow> int" where
  "signed_value sg ds = (if sg = ''-'' then - digits_value ds else digits_value ds)"

text \<open>
  Modelled from the spec: \<^verbatim>\<open>path_relativize\<close> (path.c) is not among the sources.  It
  subtracts the common prefix (spec, section 3).
\<close>

fun drop_common :: "string list \<Rightarrow> string list \<Rightarrow> string list" where
  "drop_common (a # as) (b # bs) = (if a = b then drop_common as bs else a # as)"
| "drop_common as bs = as"

definition path_relativize :: "path \<Rightarrow> path \<Rightarrow> path" where
  "path_relativize p base = p\<lparr>hops := drop_common (hops p) (hops base)\<rparr>"

text \<open>\<^verbatim>\<open>fs_relative_path\<close> (fs.c, lines 141-156).\<close>

definition fs_relative_path :: "string \<Rightarrow> string \<Rightarrow> path" where
  "fs_relative_path name base_dir_name =
     (let p = fs_full_path name None in
      if path_is_rooted p then p
      else (let base_path = path_to_dir (fs_full_path base_dir_name None) in
            if path_hop_is p 0 (path_hop base_path 0) then path_relativize p base_path else p))"

text \<open>
  An open stream: the real name it was opened on, its position, and whether the mode
  it was opened with lets the program read from it and write to it.
\<close>

record stream =
  stream_name :: string
  stream_pos :: nat
  stream_reads :: bool
  stream_writes :: bool

text \<open>
  \<^verbatim>\<open>fopen\<close> on the host, by mode.  \<^verbatim>\<open>rb\<close> opens whatever stands at the name, a
  directory too, for reading; \<^verbatim>\<open>r+b\<close> opens an existing file for reading and writing;
  \<^verbatim>\<open>wb\<close> and \<^verbatim>\<open>w+b\<close> create the file or empty it, the second for reading as well.  A
  stream starts at position 0; without a stream the result is \<^verbatim>\<open>NULL\<close>.
\<close>

definition host_fopen :: "disk \<Rightarrow> int \<Rightarrow> string \<Rightarrow> string \<Rightarrow> stream option \<times> disk" where
  "host_fopen d t name mode =
     (if mode = ''rb'' then
        (case d (host_key name) of
           None \<Rightarrow> (None, d)
         | Some n \<Rightarrow>
             (Some \<lparr>stream_name = name, stream_pos = 0, stream_reads = True,
                    stream_writes = False\<rparr>, d))
      else if mode = ''r+b'' then
        (case d (host_key name) of
           Some (File m c) \<Rightarrow>
             (Some \<lparr>stream_name = name, stream_pos = 0, stream_reads = True,
                    stream_writes = True\<rparr>, d)
         | _ \<Rightarrow> (None, d))
      else if mode = ''wb'' \<or> mode = ''w+b'' then
        (case host_write d t name [] of
           (True, d') \<Rightarrow>
             (Some \<lparr>stream_name = name, stream_pos = 0, stream_reads = (mode = ''w+b''),
                    stream_writes = True\<rparr>, d')
         | (False, d') \<Rightarrow> (None, d'))
      else (None, d))"

text \<open>\<^verbatim>\<open>fs_fopen\<close> (fs.c, lines 188-202).\<close>

definition fs_fopen :: "fs \<Rightarrow> disk \<Rightarrow> int \<Rightarrow> string \<Rightarrow> string \<Rightarrow> stream option \<times> disk" where
  "fs_fopen f d t name mode =
     (case resolve f name of
        None \<Rightarrow> (None, d)
      | Some resolved_name \<Rightarrow> host_fopen d t resolved_name mode)"

text \<open>The text of \<^verbatim>\<open>game.sgm\<close>, one \<^verbatim>\<open>fprintf\<close> per line.\<close>

definition sgm_text :: "string \<Rightarrow> string \<Rightarrow> string \<Rightarrow> int \<Rightarrow> int \<Rightarrow> string \<Rightarrow> string" where
  "sgm_text name author summary width height script =
     ''name='' @ name @ [CHR 0x0A]
     @ ''author='' @ author @ [CHR 0x0A]
     @ ''description='' @ summary @ [CHR 0x0A]
     @ ''screen_width='' @ show_int width @ [CHR 0x0A]
     @ ''screen_height='' @ show_int height @ [CHR 0x0A]
     @ ''script='' @ script @ [CHR 0x0A]"

text \<open>
  \<^verbatim>\<open>write_manifests\<close> (build.c, lines 859-960).  \<open>manifest_failed\<close> is each of its early
  exits: one error, the operation closed, false.  The source does not test the stream
  \<^verbatim>\<open>fs_fopen\<close> returns for \<^verbatim>\<open>game.sgm\<close> before it prints to it; the model returns \<open>None\<close>
  where the stream is \<^verbatim>\<open>NULL\<close>.
\<close>

definition or_default :: "jsval \<Rightarrow> string \<Rightarrow> string" where
  "or_default v dflt = (if is_string v then to_string v else dflt)"

definition manifest_failed :: "world \<Rightarrow> visor \<Rightarrow> string \<Rightarrow> (bool \<times> world) option" where
  "manifest_failed w v msg = Some (False, w\<lparr>vis := visor_end_op (visor_error v msg)\<rparr>)"

text \<open>The first stage: the operation is opened, \<^verbatim>\<open>name\<close> and \<^verbatim>\<open>author\<close> are checked.\<close>

definition manifest_warnings :: "world \<Rightarrow> visor" where
  "manifest_warnings w =
     (let d = descriptor w;
          v1 = visor_begin_op (vis w) ''writing Sphere manifest files'';
          v2 = (if is_string (get_prop d ''name'') then v1
                else visor_warn v1 (''missing or invalid '' @ quoted ''name'' @ '' field''))
      in if is_string (get_prop d ''author'') then v2
         else visor_warn v2 (''missing or invalid '' @ quoted ''author'' @ '' field''))"

text \<open>The last stage: both files are written, \<^verbatim>\<open>main\<close> is stored in its full form.\<close>

definition write_manifest_files ::
  "engine \<Rightarrow> fs \<Rightarrow> world \<Rightarrow> visor \<Rightarrow> int \<Rightarrow> int \<Rightarrow> path \<Rightarrow> (bool \<times> world) option" where
  "write_manifest_files E f w v width height main_path =
     (let d = descriptor w;
          name = or_default (get_prop d ''name'') ''Untitled'';
          author = or_default (get_prop d ''author'') ''Author Unknown'';
          summary = or_default (get_prop d ''summary'') ''No summary provided.'';
          d' = d(''main'' \<mapsto> String (path_cstr main_path))
      in case fs_fopen f (disk w) (clock w) ''@/game.sgm'' ''wb'' of
           (None, d1) \<Rightarrow> None
         | (Some file, d1) \<Rightarrow>
             (let script_path = fs_relative_path (path_cstr main_path) ''@/scripts'';
                  d2 = d1(host_key (stream_name file) \<mapsto>
                         File (clock w)
                           (sgm_text name author summary width height (path_cstr script_path)));
                  d3 = snd (fs_fspew f d2 (clock w) ''@/game.json'' (json_encode_object E d'))
              in Some (True, w\<lparr>disk := d3, descriptor := d', vis := visor_end_op v\<rparr>)))"

definition write_manifests :: "engine \<Rightarrow> fs \<Rightarrow> world \<Rightarrow> (bool \<times> world) option" where
  "write_manifests E f w =
     (let d = descriptor w;
          v = manifest_warnings w
      in case (if is_string (get_prop d ''resolution'')
               then sscanf_dxd (to_string (get_prop d ''resolution'')) else None) of
           None \<Rightarrow>
             manifest_failed w v (''missing or invalid '' @ quoted ''resolution'' @ '' field'')
         | Some (width, height) \<Rightarrow>
             if is_string (get_prop d ''main'') then
               (let main_path = fs_full_path (to_string (get_prop d ''main'')) (Some ''@/'') in
                if \<not> path_hop_is main_path 0 ''@'' then
                  manifest_failed w v
                    (quoted ''main'' @ '': illegal prefix '' @ quoted (path_hop main_path 0 @ ''/'')
                     @ '' in filename'')
                else if \<not> fs_fexist f (disk w) (path_cstr main_path) then
                  manifest_failed w v
                    (quoted ''main'' @ '': file not found '' @ quoted (path_cstr main_path))
                else write_manifest_files E f w v width height main_path)
             else
               manifest_failed w v (''missing or invalid '' @ quoted ''main'' @ '' field''))"

text \<open>
  What the validation accepts: a resolution from which two integers are scanned, and a
  \<^verbatim>\<open>main\<close> that is a string, has the prefix \<^verbatim>\<open>@\<close> once made full relative to \<^verbatim>\<open>@/\<close>,
  and names an existing file.
\<close>

definition resolution_ok :: "jsval \<Rightarrow> bool" where
  "resolution_ok v = (is_string v \<and> sscanf_dxd (to_string v) \<noteq> None)"

definition main_ok :: "fs \<Rightarrow> disk \<Rightarrow> jsval \<Rightarrow> bool" where
  "main_ok f d v =
     (is_string v
      \<and> path_hop_is (fs_full_path (to_string v) (Some ''@/'')) 0 ''@''
      \<and> fs_fexist f d (path_cstr (fs_full_path (to_string v) (Some ''@/''))))"

definition game_dir :: "fs \<Rightarrow> string" where
  "game_dir f = concat (map (\<lambda>h. h @ ''/'') (hops (game_path f)))"

subsection \<open>\<^verbatim>\<open>build_run\<close> (build.c, lines 353-463)\<close>

definition unlink_manifests :: "fs \<Rightarrow> world \<Rightarrow> world" where
  "unlink_manifests f w =
     w\<lparr>disk := snd (fs_unlink f (snd (fs_unlink f (disk w) ''@/game.json'')) ''@/game.sgm'')\<rparr>"

definition file_map :: "target list \<Rightarrow> (string \<times> string) list" where
  "file_map ts =
     List.map_filter
       (\<lambda>t. if path_num_hops (target_path t) = 0 \<or> \<not> path_hop_is (target_path t) 0 ''@''
            then None
            else map_option (\<lambda>s. (path_cstr (target_path t), path_cstr s)) (target_source_path t))
       ts"

definition write_source_map :: "engine \<Rightarrow> build \<Rightarrow> bool \<Rightarrow> world \<Rightarrow> world" where
  "write_source_map E b want_debug w =
     (if want_debug then
        w\<lparr>vis := visor_end_op (visor_begin_op (vis w) ''writing source map''),
          disk := snd (fs_fspew (fs_of b) (disk w) (clock w) ''@/sources.json''
                        (json_encode_filemap E (file_map (targets b))))\<rparr>
      else w\<lparr>disk := snd (fs_unlink (fs_of b) (disk w) ''@/sources.json'')\<rparr>)"

definition write_artifacts :: "engine \<Rightarrow> build \<Rightarrow> world \<Rightarrow> world" where
  "write_artifacts E b w =
     w\<lparr>disk := snd (fs_fspew (fs_of b) (disk w) (clock w) ''@/artifacts.json''
                     (json_encode_strings E (visor_filenames (vis w))))\<rparr>"

definition finished :: "world \<Rightarrow> bool \<times> world" where
  "finished w = (visor_num_errors (vis w) = 0, w)"

text \<open>The three stretches of \<^verbatim>\<open>build_run\<close> before its first exit and between the exits.\<close>

definition check_conflicts :: "build \<Rightarrow> world \<Rightarrow> world" where
  "check_conflicts b w =
     w\<lparr>vis := detect_conflicts (targets b) (visor_begin_op (vis w) ''building targets'')\<rparr>"

definition build_all ::
  "(target \<Rightarrow> bool \<Rightarrow> world \<Rightarrow> world) \<Rightarrow> build \<Rightarrow> bool \<Rightarrow> world \<Rightarrow> world" where
  "build_all target_build b rebuild_all w =
     (let w2 = build_targets target_build (targets b) rebuild_all (check_conflicts b w)
      in w2\<lparr>vis := visor_end_op (vis w2)\<rparr>)"

definition build_run ::
  "engine \<Rightarrow> (target \<Rightarrow> bool \<Rightarrow> world \<Rightarrow> world) \<Rightarrow> build \<Rightarrow> bool \<Rightarrow> bool \<Rightarrow> world
     \<Rightarrow> (bool \<times> world) option" where
  "build_run E target_build b want_debug rebuild_all w =
     (let w1 = check_conflicts b w in
      if visor_num_errors (vis w1) > 0
      then Some (finished (w1\<lparr>vis := visor_end_op (vis w1)\<rparr>))
      else
        (let w2 = build_all target_build b rebuild_all w in
         if visor_num_errors (vis w2) = 0 then
           (case write_manifests E (fs_of b) (clean_old_artifacts b True w2) of
              None \<Rightarrow> None
            | Some (ok, w3) \<Rightarrow>
                if \<not> ok then Some (finished (unlink_manifests (fs_of b) w3))
                else Some (finished (write_artifacts E b (write_source_map E b want_debug w3))))
         else Some (finished (unlink_manifests (fs_of b) w2))))"

section \<open>The CommonJS loader (build.c)\<close>

text \<open>
  Modelled from the spec: \<^verbatim>\<open>path_extension\<close> and \<^verbatim>\<open>path_has_extension\<close> (path.c) are
  not among the sources.  The extension query of spec section 3: the part of the file
  name from its last dot on.
\<close>

definition path_extension :: "path \<Rightarrow> string" where
  "path_extension p =
     (case leaf p of
        None \<Rightarrow> []
      | Some n \<Rightarrow> if CHR ''.'' \<in> set n
                  then CHR ''.'' # rev (takeWhile (\<lambda>c. c \<noteq> CHR ''.'') (rev n)) else [])"

definition path_has_extension :: "path \<Rightarrow> string \<Rightarrow> bool" where
  "path_has_extension p e = (path_extension p = e)"

datatype outcome = Exports jsval | Threw js_error | Crash

definition reference_error :: "string \<Rightarrow> js_error" where
  "reference_error s = \<lparr>kind = ReferenceError, message = s, fileName = [], lineNumber = 0\<rparr>"



subsection \<open>\<^verbatim>\<open>eval_cjs_module\<close> (build.c, lines 494-656)\<close>

text \<open>
  The module object is built with a fresh object as \<^verbatim>\<open>exports\<close>, \<^verbatim>\<open>loaded\<close> false, and
  then stored in the cache under the file name (\<open>cache_module\<close>), before anything of
  the module is decoded, compiled or run.
\<close>

definition new_module :: "string \<Rightarrow> world \<Rightarrow> nat \<times> world" where
  "new_module filename w =
     (next_ref w,
      w\<lparr>objects := (objects w)(next_ref w \<mapsto>
           \<lparr>exports = Object (Suc (next_ref w)), mod_filename = filename, mod_id = filename,
            loaded = False\<rparr>),
        next_ref := Suc (Suc (next_ref w))\<rparr>)"

definition cache_module :: "string \<Rightarrow> nat \<Rightarrow> world \<Rightarrow> world" where
  "cache_module filename m w = w\<lparr>moduleCache := (moduleCache w)(filename \<mapsto> m)\<rparr>"

definition module_exports :: "world \<Rightarrow> nat \<Rightarrow> jsval" where
  "module_exports w m = (case objects w m of None \<Rightarrow> Undefined | Some mo \<Rightarrow> exports mo)"

definition set_exports :: "nat \<Rightarrow> jsval \<Rightarrow> world \<Rightarrow> world" where
  "set_exports m v w =
     (case objects w m of
        None \<Rightarrow> w
      | Some mo \<Rightarrow> w\<lparr>objects := (objects w)(m \<mapsto> mo\<lparr>exports := v\<rparr>)\<rparr>)"

definition set_loaded :: "nat \<Rightarrow> world \<Rightarrow> world" where
  "set_loaded m w =
     (case objects w m of
        None \<Rightarrow> w
      | Some mo \<Rightarrow> w\<lparr>objects := (objects w)(m \<mapsto> mo\<lparr>loaded := True\<rparr>)\<rparr>)"

text \<open>The two exits: \<^verbatim>\<open>have_module\<close> and \<^verbatim>\<open>on_error\<close>.\<close>

definition have_module :: "nat \<Rightarrow> world \<Rightarrow> outcome \<times> world" where
  "have_module m w = (Exports (module_exports w m), w)"

definition on_error :: "string \<Rightarrow> js_error \<Rightarrow> world \<Rightarrow> outcome \<times> world" where
  "on_error filename e w = (Threw e, w\<lparr>moduleCache := (moduleCache w)(filename := None)\<rparr>)"

text \<open>
  The function text wrapped around the module code, first as written and then, after
  the transpiler, a second time; a \<^verbatim>\<open>#!\<close> line is commented out.
\<close>

definition shebang :: "string \<Rightarrow> string" where
  "shebang code = (if take 2 code = ''#!'' then ''//'' else [])"

definition wrap_first :: "string \<Rightarrow> string" where
  "wrap_first code =
     ''(function(exports, require, module, __filename, __dirname) {'' @ shebang code @ code
     @ [CHR 0x0A] @ ''})''"

definition wrap_second :: "string \<Rightarrow> string" where
  "wrap_second code =
     ''(function(exports, require, module, __filename, __dirname) { '' @ shebang code @ code
     @ '' })''"

text \<open>
  Without a transpiler in the stash a module file leaves the \<^verbatim>\<open>null\<close> pushed for stack
  balancing as the value thrown.
\<close>

definition null_thrown :: js_error where
  "null_thrown = \<lparr>kind = Error, message = ''null'', fileName = [], lineNumber = 0\<rparr>"

definition prepare_code :: "engine \<Rightarrow> bool \<Rightarrow> string \<Rightarrow> bool \<Rightarrow> js_error + string" where
  "prepare_code E as_mjs code has_typescript =
     (case (if as_mjs then Some null_thrown else compile E (wrap_first code)) of
        None \<Rightarrow> Inr (wrap_first code)
      | Some e \<Rightarrow>
          if \<not> has_typescript then Inl e
          else (case transpile E (\<not> as_mjs) code of
                  Inl e' \<Rightarrow> Inl e'
                | Inr output \<Rightarrow>
                    (case compile E (wrap_second output) of
                       Some e'' \<Rightarrow> Inl e''
                     | None \<Rightarrow> Inr (wrap_second output))))"

text \<open>
  The source passes what \<^verbatim>\<open>fs_fslurp\<close> returns on without a test; the model ends with
  \<open>Crash\<close> where that is \<^verbatim>\<open>NULL\<close>.  The conversion of the bytes read
  (\<^verbatim>\<open>lstr_from_cp1252\<close>) is left out: the code is the text of the file.
\<close>

definition eval_cjs_module :: "engine \<Rightarrow> fs \<Rightarrow> string \<Rightarrow> bool \<Rightarrow> world \<Rightarrow> outcome \<times> world" where
  "eval_cjs_module E f filename as_mjs w =
     (case moduleCache w filename of
        Some m \<Rightarrow> have_module m w
      | None \<Rightarrow>
          (case fs_fslurp f (disk w) filename of
             None \<Rightarrow> (Crash, w)
           | Some code \<Rightarrow>
               (let (m, w1) = new_module filename w;
                    w2 = cache_module filename m w1
                in if path_extension (path_new filename) = ''.json'' then
                     (case json_decode E code of
                        Inl e \<Rightarrow> on_error filename e w2
                      | Inr v \<Rightarrow> have_module m (set_loaded m (set_exports m v w2)))
                   else
                     (case prepare_code E as_mjs code (typescript w2) of
                        Inl e \<Rightarrow> on_error filename e w2
                      | Inr compiled \<Rightarrow>
                          (case run_module E compiled filename
                                  (path_cstr (path_strip (path_new filename))) m w2 of
                             (Some e, w3) \<Rightarrow> on_error filename e w3
                           | (None, w3) \<Rightarrow> have_module m (set_loaded m w3))))))"

text \<open>Loading one file name several times in a row.\<close>

fun load_times ::
  "engine \<Rightarrow> fs \<Rightarrow> string \<Rightarrow> bool \<Rightarrow> nat \<Rightarrow> world \<Rightarrow> outcome list \<times> world" where
  "load_times E f filename as_mjs 0 w = ([], w)"
| "load_times E f filename as_mjs (Suc n) w =
     (let (r, w1) = eval_cjs_module E f filename as_mjs w;
          (rs, w2) = load_times E f filename as_mjs n w1
      in (r # rs, w2))"

text \<open>
  A module body that leaves the cache entries it finds in place: what a body does when
  it reaches the cache through \<^verbatim>\<open>require\<close> only.
\<close>

definition keeps_cache :: "engine \<Rightarrow> bool" where
  "keeps_cache E =
     (\<forall>code fname dname m w k a.
        moduleCache w k = Some a \<longrightarrow>
        moduleCache (snd (run_module E code fname dname m w)) k = Some a)"

subsection \<open>\<^verbatim>\<open>find_cjs_module\<close> (build.c, lines 658-718)\<close>

text \<open>
  Each format of the source is \<^verbatim>\<open>%s\<close> followed by a fixed text; the table keeps that
  text, and \<open>strnewf\<close> puts the module id in front of it.
\<close>

definition filenames_table :: "string list" where
  "filenames_table =
     [[], ''.mjs'', ''.js'', ''.json'', ''/package.json'', ''/index.mjs'', ''/index.js'',
      ''/index.json'']"

definition strnewf :: "string \<Rightarrow> string \<Rightarrow> string" where
  "strnewf fmt module_id = module_id @ fmt"

definition is_relative_id :: "string \<Rightarrow> bool" where
  "is_relative_id module_id = (take 2 module_id = ''./'' \<or> take 3 module_id = ''../'')"

definition has_fs_prefix :: "string \<Rightarrow> bool" where
  "has_fs_prefix module_id =
     (take 2 module_id = ''@/'' \<or> take 2 module_id = ''$/'' \<or> take 2 module_id = ''~/''
      \<or> take 2 module_id = ''#/'')"

text \<open>\<^verbatim>\<open>load_package_json\<close> (build.c, lines 745-778).\<close>

definition load_package_json :: "engine \<Rightarrow> fs \<Rightarrow> disk \<Rightarrow> string \<Rightarrow> path option" where
  "load_package_json E f d filename =
     (case fs_fslurp f d filename of
        None \<Rightarrow> None
      | Some json \<Rightarrow>
          (case package_main E json of
             None \<Rightarrow> None
           | Some main \<Rightarrow>
               (let p = path_collapse (path_append (path_strip (path_new filename)) main) True
                in if fs_fexist f d (path_cstr p) then Some p else None)))"

definition origin_path :: "string \<Rightarrow> string option \<Rightarrow> string \<Rightarrow> path" where
  "origin_path module_id origin sys_origin =
     (if is_relative_id module_id
      then path_new (case origin of Some name \<Rightarrow> name | None \<Rightarrow> ''./'')
      else path_new_dir sys_origin)"

definition candidate :: "string \<Rightarrow> path \<Rightarrow> string \<Rightarrow> path" where
  "candidate module_id origin fmt =
     (if has_fs_prefix module_id then fs_full_path (strnewf fmt module_id) None
      else path_collapse (path_append (path_strip origin) (strnewf fmt module_id)) True)"

text \<open>One turn of the loop: \<open>Some\<close> is a \<^verbatim>\<open>return\<close>, \<open>None\<close> is \<^verbatim>\<open>next_filename\<close>.\<close>

definition try_candidate :: "engine \<Rightarrow> fs \<Rightarrow> disk \<Rightarrow> path \<Rightarrow> path option" where
  "try_candidate E f d p =
     (if fs_fexist f d (path_cstr p) then
        (if path_filename p \<noteq> ''package.json'' then Some p
         else (case load_package_json E f d (path_cstr p) of
                 None \<Rightarrow> None
               | Some main_path \<Rightarrow>
                   if fs_fexist f d (path_cstr main_path) then Some main_path else None))
      else None)"

fun find_loop :: "engine \<Rightarrow> fs \<Rightarrow> disk \<Rightarrow> string \<Rightarrow> path \<Rightarrow> string list \<Rightarrow> path option" where
  "find_loop E f d module_id origin [] = None"
| "find_loop E f d module_id origin (fmt # rest) =
     (case try_candidate E f d (candidate module_id origin fmt) of
        Some p \<Rightarrow> Some p
      | None \<Rightarrow> find_loop E f d module_id origin rest)"

definition find_cjs_module ::
  "engine \<Rightarrow> fs \<Rightarrow> disk \<Rightarrow> string \<Rightarrow> string option \<Rightarrow> string \<Rightarrow> path option" where
  "find_cjs_module E f d module_id origin sys_origin =
     find_loop E f d module_id (origin_path module_id origin sys_origin) filenames_table"

subsection \<open>\<^verbatim>\<open>js_require\<close> (build.c, lines 1073-1111)\<close>

definition PATHS :: "string list" where
  "PATHS = [''$/lib'', ''#/cell_modules'', ''#/runtime'']"

fun find_in_paths ::
  "engine \<Rightarrow> fs \<Rightarrow> disk \<Rightarrow> string \<Rightarrow> string option \<Rightarrow> string list \<Rightarrow> path option" where
  "find_in_paths E f d module_id parent_id [] = None"
| "find_in_paths E f d module_id parent_id (sys_origin # rest) =
     (case find_cjs_module E f d module_id parent_id sys_origin of
        Some p \<Rightarrow> Some p
      | None \<Rightarrow> find_in_paths E f d module_id parent_id rest)"

definition js_require ::
  "engine \<Rightarrow> fs \<Rightarrow> string option \<Rightarrow> string \<Rightarrow> world \<Rightarrow> outcome \<times> world" where
  "js_require E f parent_id module_id w =
     (if parent_id = None \<and> is_relative_id module_id
      then (Threw (type_error ''relative require not allowed in global code''), w)
      else (case find_in_paths E f (disk w) module_id parent_id PATHS of
              None \<Rightarrow> (Threw (reference_error (''module not found '' @ quoted module_id)), w)
            | Some p \<Rightarrow> eval_cjs_module E f (path_cstr p) (path_has_extension p ''.mjs'') w))"

section \<open>File streams (build.c)\<close>




section \<open>Example inputs\<close>

definition example_fs :: fs where
  "example_fs = \<lparr>root_path = path_new_dir ''src'', game_path = path_new_dir ''dist'',
     system_path = path_new_dir ''sys'', user_path = None\<rparr>"

definition empty_visor :: visor where
  "empty_visor = \<lparr>num_errors = 0, num_warns = 0, ops = [], messages = [], filenames = []\<rparr>"

definition example_world :: world where
  "example_world =
     \<lparr>disk = [''src'' \<mapsto> Dir 1, ''src/a.txt'' \<mapsto> File 3 ''A'',
              ''dist'' \<mapsto> Dir 1, ''dist/old.bin'' \<mapsto> File 2 ''old''],
      clock = 7,
      vis = empty_visor,
      descriptor = Map.empty, moduleCache = Map.empty, objects = Map.empty, next_ref = 0,
      typescript = False\<rparr>"

text \<open>Three tools: one writes its output, one throws after writing, one does nothing.\<close>

definition write_tool :: tool where
  "write_tool = \<lparr>verb = ''writing'',
     callback = (\<lambda>out ins w.
        (None, w\<lparr>disk := snd (fs_fspew example_fs (disk w) (clock w) out ''data'')\<rparr>))\<rparr>"

definition throwing_tool :: tool where
  "throwing_tool = \<lparr>verb = ''failing'',
     callback = (\<lambda>out ins w.
        (Some \<lparr>kind = Error, message = ''boom'', fileName = ''Cellscript.js'', lineNumber = 3\<rparr>,
         w\<lparr>disk := snd (fs_fspew example_fs (disk w) (clock w) out ''partial'')\<rparr>))\<rparr>"

definition idle_tool :: tool where
  "idle_tool = \<lparr>verb = ''idling'', callback = (\<lambda>out ins w. (None, w))\<rparr>"

text \<open>A stand-in for the engine's services, and builds over a stale output directory.\<close>

fun join :: "string \<Rightarrow> string list \<Rightarrow> string" where
  "join sep [] = []"
| "join sep [x] = x"
| "join sep (x # y # r) = x @ sep @ join sep (y # r)"

definition example_engine :: engine where
  "example_engine =
     \<lparr>json_encode_strings =
        (\<lambda>xs. ''['' @ join '','' (map (\<lambda>x. [CHR 0x22] @ x @ [CHR 0x22]) xs) @ '']''),
      json_encode_object = (\<lambda>obj. ''{}''),
      json_encode_filemap = (\<lambda>m. ''{}''),
      json_decode = (\<lambda>s. if s = ''null'' then Inr Null
                         else Inl \<lparr>kind = SyntaxError, message = ''invalid json'',
                                   fileName = ''input'', lineNumber = 1\<rparr>),
      package_main = (\<lambda>s. if take 5 s = ''main='' then Some (drop 5 s) else None),
      compile = (\<lambda>s. None),
      transpile = (\<lambda>strict s. Inr s),
      run_module = (\<lambda>code fname dname m w. (None, w))\<rparr>"

definition file_target :: "string \<Rightarrow> target" where
  "file_target s =
     \<lparr>target_name = path_new s, target_path = path_new s, target_source_path = None\<rparr>"

definition stale_world :: world where
  "stale_world =
     example_world\<lparr>disk := (disk example_world)
        (''dist/game.json'' \<mapsto> File 2 ''{}'',
         ''dist/game.sgm'' \<mapsto> File 2 ''name=old'',
         ''dist/artifacts.json'' \<mapsto> File 2 ''OLD'')\<rparr>"

definition conflicting_build :: build where
  "conflicting_build =
     \<lparr>artifacts = [], fs_of = example_fs,
      targets = [file_target ''@/x.txt'', file_target ''src/a.txt'', file_target ''@/x.txt''],
      timestamp = 0\<rparr>"

definition single_build :: build where
  "single_build =
     \<lparr>artifacts = [], fs_of = example_fs, targets = [file_target ''@/y.txt''], timestamp = 0\<rparr>"

text \<open>A \<^verbatim>\<open>target_build\<close> that records its target and reports an error.\<close>

definition failing_target_build :: "target \<Rightarrow> bool \<Rightarrow> world \<Rightarrow> world" where
  "failing_target_build t rebuild_all w =
     w\<lparr>vis := (visor_error (vis w) ''tool failed'')
          \<lparr>filenames := filenames (vis w) @ [path_cstr (target_path t)]\<rparr>\<rparr>"

text \<open>
  A build whose previous artifact list names \<^verbatim>\<open>artifacts.json\<close> itself, and a
  \<^verbatim>\<open>target_build\<close> that does nothing.
\<close>

definition listing_build :: build where
  "listing_build =
     \<lparr>artifacts = [''@/artifacts.json''], fs_of = example_fs,
      targets = [file_target ''@/y.txt''], timestamp = 0\<rparr>"

definition idle_target_build :: "target \<Rightarrow> bool \<Rightarrow> world \<Rightarrow> world" where
  "idle_target_build t rebuild_all w = w"





text \<open>
  A source tree with a module, a package description without \<^verbatim>\<open>main\<close>, a script, and
  a package whose description names its main file.
\<close>

definition module_world :: world where
  "module_world =
     example_world\<lparr>disk := (disk example_world)
        (''src/lib'' \<mapsto> Dir 1,
         ''src/lib/util.js'' \<mapsto> File 1 ''exports.x = 1;'',
         ''src/package.json'' \<mapsto> File 1 ''{}'',
         ''src/main.js'' \<mapsto> File 1 ''main'',
         ''src/lib/pkg'' \<mapsto> Dir 1,
         ''src/lib/pkg/package.json'' \<mapsto> File 1 ''main=entry.js'',
         ''src/lib/pkg/entry.js'' \<mapsto> File 1 ''exports.y = 2;'')\<rparr>"

definition throwing_engine :: engine where
  "throwing_engine =
     example_engine\<lparr>run_module := (\<lambda>code fname dname m w.
        (Some \<lparr>kind = Error, message = ''boom'', fileName = fname, lineNumber = 1\<rparr>, w))\<rparr>"

text \<open>An engine whose module body reports that it runs.\<close>

definition chatty_engine :: engine where
  "chatty_engine =
     example_engine\<lparr>run_module := (\<lambda>code fname dname m w.
        (None, w\<lparr>vis := visor_print (vis w) ''body runs''\<rparr>))\<rparr>"

text \<open>
  An engine whose module body reports that it runs and removes the record of its own
  file from the cache, as a script does with \<^verbatim>\<open>delete require.cache[module.id]\<close>
  (\<^verbatim>\<open>push_require\<close> hands the cache object to every \<^verbatim>\<open>require\<close> function).
\<close>

definition forgetful_engine :: engine where
  "forgetful_engine =
     example_engine\<lparr>run_module := (\<lambda>code fname dname m w.
        (None, w\<lparr>vis := visor_print (vis w) ''body runs'',
                  moduleCache := (moduleCache w)(fname := None)\<rparr>))\<rparr>"

chapter \<open>Properties\<close>

section \<open>Path resolution\<close>

lemma host_walk_append: "host_walk acc (xs @ ys) = host_walk (host_walk acc xs) ys"
  by (induction xs arbitrary: acc) simp_all

lemma host_walk_plain:
  "''..'' \<notin> set hs \<Longrightarrow> host_walk acc hs = acc @ filter (\<lambda>h. h \<noteq> ''.'') hs"
  by (induction hs arbitrary: acc) auto

lemma in_sandbox_rebase:
  assumes "''..'' \<notin> set (components q)"
  shows "in_sandbox root (path_rebase q root)"
proof -
  have "components (path_rebase q root) = hops root @ components q"
    by (simp add: components_def path_rebase_def)
  moreover have "host_walk [] (hops root @ components q) =
        host_walk [] (hops root) @ filter (\<lambda>h. h \<noteq> ''.'') (components q)"
    using assms by (simp add: host_walk_append host_walk_plain)
  ultimately show ?thesis
    by (simp add: in_sandbox_def)
qed

lemma resolve_path_None:
  "resolve_path f name = None \<longleftrightarrow>
     path_is_rooted (path_new name)
     \<or> (path_hop_is (path_new name) 0 ''~'' \<and> user_path f = None)"
  by (auto simp: resolve_path_def Let_def path_hop_is_def path_num_hops_def split: option.splits)

lemma resolve_path_Some:
  assumes "resolve_path f name = Some r"
  shows "\<exists>root. selected_root f (path_new name) = Some root
           \<and> r = path_rebase (remainder (path_new name)) root"
  using assms
  by (auto simp: resolve_path_def Let_def selected_root_def remainder_def path_hop_is_def
      path_num_hops_def split: option.splits if_splits)

text \<open>
  C1, as the code has it.  \<^verbatim>\<open>resolve\<close> fails exactly when the path is platform-absolute
  or its first hop is \<^verbatim>\<open>~\<close> and no user root is configured.  Otherwise it strips a
  \<^verbatim>\<open>$\<close>, \<^verbatim>\<open>@\<close>, \<^verbatim>\<open>#\<close> or \<^verbatim>\<open>~\<close> first hop and returns the remainder with the hops of
  the selected root (source, output, system, user; source for any other path) put in
  front, unchanged: nothing is collapsed and no climb above the root is detected.  The
  result is under the selected root whenever no component of the remainder is \<^verbatim>\<open>..\<close>.
\<close>

theorem resolve_rebases_without_collapse:
  "(resolve_path f name = None \<longleftrightarrow>
      path_is_rooted (path_new name)
      \<or> (path_hop_is (path_new name) 0 ''~'' \<and> user_path f = None))
   \<and> (\<forall>r. resolve_path f name = Some r \<longrightarrow>
         (\<exists>root. selected_root f (path_new name) = Some root
            \<and> r = path_rebase (remainder (path_new name)) root
            \<and> hops r = hops root @ hops (remainder (path_new name))
            \<and> resolve f name = Some (path_cstr r)
            \<and> (''..'' \<notin> set (components (remainder (path_new name))) \<longrightarrow> in_sandbox root r)))"
proof (intro conjI allI impI)
  show "resolve_path f name = None \<longleftrightarrow>
      path_is_rooted (path_new name)
      \<or> (path_hop_is (path_new name) 0 ''~'' \<and> user_path f = None)"
    by (rule resolve_path_None)
next
  fix r assume r: "resolve_path f name = Some r"
  then obtain root where root: "selected_root f (path_new name) = Some root"
      "r = path_rebase (remainder (path_new name)) root"
    using resolve_path_Some by blast
  have "resolve f name = Some (path_cstr r)"
    using r by (simp add: resolve_def)
  moreover have "hops r = hops root @ hops (remainder (path_new name))"
    using root(2) by (simp add: path_rebase_def)
  moreover have "''..'' \<notin> set (components (remainder (path_new name))) \<longrightarrow> in_sandbox root r"
    using root(2) in_sandbox_rebase by blast
  ultimately show "\<exists>root. selected_root f (path_new name) = Some root
            \<and> r = path_rebase (remainder (path_new name)) root
            \<and> hops r = hops root @ hops (remainder (path_new name))
            \<and> resolve f name = Some (path_cstr r)
            \<and> (''..'' \<notin> set (components (remainder (path_new name))) \<longrightarrow> in_sandbox root r)"
    using root by blast
qed

theorem resolve_rebases_without_collapse_witness:
  "resolve example_fs ''@/img/a.png'' = Some ''dist/img/a.png''
   \<and> in_sandbox (game_path example_fs) \<lparr>hops = [''dist'', ''img''], leaf = Some ''a.png''\<rparr>
   \<and> resolve_path example_fs ''~/save.dat'' = None"
proof -
  have r: "resolve_path example_fs ''@/img/a.png'' =
      Some \<lparr>hops = [''dist'', ''img''], leaf = Some ''a.png''\<rparr>"
    by code_simp
  have s: "selected_root example_fs (path_new ''@/img/a.png'') = Some (game_path example_fs)"
    by code_simp
  have n: "''..'' \<notin> set (components (remainder (path_new ''@/img/a.png'')))"
    by code_simp
  have c: "path_cstr \<lparr>hops = [''dist'', ''img''], leaf = Some ''a.png''\<rparr> = ''dist/img/a.png''"
    by code_simp
  have u: "path_hop_is (path_new ''~/save.dat'') 0 ''~'' \<and> user_path example_fs = None"
    by code_simp
  from resolve_rebases_without_collapse [of example_fs "''@/img/a.png''"] r s n c
  have "resolve example_fs ''@/img/a.png'' = Some ''dist/img/a.png''
   \<and> in_sandbox (game_path example_fs) \<lparr>hops = [''dist'', ''img''], leaf = Some ''a.png''\<rparr>"
    by auto
  moreover from resolve_rebases_without_collapse [of example_fs "''~/save.dat''"] u
  have "resolve_path example_fs ''~/save.dat'' = None" by blast
  ultimately show ?thesis by blast
qed

text \<open>
  C1, as stated, fails: \<^verbatim>\<open>$/../secret\<close> is resolved, not rejected, and the real path
  returned leaves the source root.
\<close>

theorem resolve_escape_counterexample:
  "resolve example_fs ''$/../secret'' = Some ''src/../secret''
   \<and> resolve_path example_fs ''$/../secret'' =
       Some \<lparr>hops = [''src'', ''..''], leaf = Some ''secret''\<rparr>
   \<and> \<not> in_sandbox (root_path example_fs) \<lparr>hops = [''src'', ''..''], leaf = Some ''secret''\<rparr>"
  by code_simp

section \<open>Running a tool\<close>

lemma fs_unlink_absent: "fs_stat f d name = None \<Longrightarrow> snd (fs_unlink f d name) = d"
  by (auto simp: fs_stat_def fs_unlink_def host_stat_def host_unlink_def
      split: option.splits node.splits)

lemma fs_unlink_gone: "\<not> fs_fexist f (snd (fs_unlink f d name)) name"
  by (auto simp: fs_fexist_def fs_stat_def fs_unlink_def host_stat_def host_unlink_def
      split: option.splits node.splits)

lemma fs_fexist_stat: "fs_stat f d name = None \<Longrightarrow> \<not> fs_fexist f d name"
  by (simp add: fs_fexist_def)

lemma tool_call_cases:
  assumes "callback t (path_cstr out_path) (map path_cstr in_paths) w1 = (thrown, wc)"
  shows "tool_call t out_path in_paths w1 =
     (case thrown of
        None \<Rightarrow> (True, wc)
      | Some e \<Rightarrow> (False, wc\<lparr>vis := visor_print (visor_error (vis wc) (message e))
             (''@ ['' @ fileName e @ '':'' @ show_int (lineNumber e) @ '']'')\<rparr>))"
  using assms by (simp add: tool_call_def split: option.splits)

lemma tool_call_effect:
  assumes "callback t (path_cstr out_path) (map path_cstr in_paths) w1 = (thrown, wc)"
  shows "disk (snd (tool_call t out_path in_paths w1)) = disk wc"
    and "fst (tool_call t out_path in_paths w1) = (thrown = None)"
    and "thrown = None \<Longrightarrow> snd (tool_call t out_path in_paths w1) = wc"
  using assms by (auto simp: tool_call_cases visor_print_def visor_error_def split: option.splits)

text \<open>
  C2.  Let the callback of a tool, started in the world \<open>tool_begin\<close> has prepared,
  return \<open>thrown\<close> (\<open>None\<close> when it completes) and the world \<open>wc\<close>.  \<^verbatim>\<open>tool_run\<close> returns
  true only if the callback did not throw, the error count of the visor has not grown
  during the call and the output can be stat'ed afterwards.  When it did not throw, the
  count has not grown and the output exists with the mtime recorded before the call, the
  result is true and exactly one warning (\<^verbatim>\<open>target file unchanged after build\<close>), no
  error, is emitted.  Whenever \<^verbatim>\<open>tool_run\<close> returns false the files it leaves are those
  the callback left with the output unlinked, and the output is not an existing file.
\<close>

theorem tool_run_postconditions:
  "tool_run (Some t) f out_path in_paths w = (ok, w') \<Longrightarrow>
   callback t (path_cstr out_path) (map path_cstr in_paths) (tool_begin t f out_path w)
     = (thrown, wc) \<Longrightarrow>
     (ok \<longrightarrow> thrown = None
            \<and> visor_num_errors (vis wc) \<le> visor_num_errors (vis (tool_begin t f out_path w))
            \<and> fs_stat f (disk w') (path_cstr out_path) \<noteq> None)
   \<and> (thrown = None
        \<and> visor_num_errors (vis wc) \<le> visor_num_errors (vis (tool_begin t f out_path w))
        \<and> (\<exists>n. fs_stat f (disk wc) (path_cstr out_path) = Some n
               \<and> mtime n = last_mtime f out_path (tool_begin t f out_path w))
        \<longrightarrow> ok
              \<and> vis w' = visor_end_op (visor_warn (vis wc) ''target file unchanged after build'')
              \<and> visor_num_warns (vis w') = Suc (visor_num_warns (vis wc))
              \<and> visor_num_errors (vis w') = visor_num_errors (vis wc))
   \<and> (\<not> ok \<longrightarrow> disk w' = snd (fs_unlink f (disk wc) (path_cstr out_path))
              \<and> \<not> fs_fexist f (disk w') (path_cstr out_path))"
proof -
  assume run: "tool_run (Some t) f out_path in_paths w = (ok, w')"
    and cb: "callback t (path_cstr out_path) (map path_cstr in_paths) (tool_begin t f out_path w)
      = (thrown, wc)"
  let ?w1 = "tool_begin t f out_path w"
  let ?out = "path_cstr out_path"
  obtain called w2 where call: "tool_call t out_path in_paths ?w1 = (called, w2)"
    by (cases "tool_call t out_path in_paths ?w1")
  have called: "called = (thrown = None)" and d2: "disk w2 = disk wc"
    using tool_call_effect(1,2)[OF cb] call by simp_all
  have w2: "thrown = None \<Longrightarrow> w2 = wc"
    using tool_call_effect(3)[OF cb] call by simp
  let ?rok = "if visor_num_errors (vis w2) > visor_num_errors (vis ?w1) then False else called"
  obtain res w3 where fin: "tool_finish f out_path (last_mtime f out_path ?w1) ?rok w2 = (res, w3)"
    by (cases "tool_finish f out_path (last_mtime f out_path ?w1) ?rok w2")
  have ok: "ok = res" and w': "w' = w3\<lparr>vis := visor_end_op (vis w3)\<rparr>"
    using run call fin by (simp_all add: tool_run_def Let_def)
  show ?thesis
  proof (cases ?rok)
    case False
    then have "res = False" "disk w3 = snd (fs_unlink f (disk w2) ?out)"
      using fin by (auto simp: tool_finish_def)
    moreover have "\<not> (thrown = None \<and> visor_num_errors (vis wc) \<le> visor_num_errors (vis ?w1))"
      using False called w2 by (auto split: if_splits)
    ultimately show ?thesis
      using ok w' d2 fs_unlink_gone[of f "disk wc" ?out] by auto
  next
    case True
    then have t: "thrown = None" "visor_num_errors (vis wc) \<le> visor_num_errors (vis ?w1)" "w2 = wc"
      using called w2 by (auto split: if_splits)
    show ?thesis
    proof (cases "fs_stat f (disk wc) ?out")
      case None
      then have "res = False" "disk w3 = disk wc"
        using fin True t by (auto simp: tool_finish_def)
      then show ?thesis
        using ok w' None fs_unlink_absent[OF None] fs_fexist_stat[OF None] by auto
    next
      case (Some n)
      then have "res = True" "disk w3 = disk wc"
        using fin True t by (auto simp: tool_finish_def split: if_splits)
      moreover have "mtime n = last_mtime f out_path ?w1 \<Longrightarrow>
          w3 = wc\<lparr>vis := visor_warn (vis wc) ''target file unchanged after build''\<rparr>"
        using fin True t Some by (auto simp: tool_finish_def)
      ultimately show ?thesis
        using ok w' Some t
        by (auto simp: visor_num_warns_def visor_num_errors_def visor_end_op_def visor_warn_def)
    qed
  qed
qed

theorem tool_run_postconditions_witness:
  "fst (tool_run (Some write_tool) example_fs (path_new ''@/out.bin'') [] example_world)
   \<and> fs_stat example_fs
        (disk (snd (tool_run (Some write_tool) example_fs (path_new ''@/out.bin'') [] example_world)))
        ''@/out.bin'' \<noteq> None
   \<and> fst (tool_run (Some idle_tool) example_fs (path_new ''@/old.bin'') [] example_world)
   \<and> visor_num_warns
        (vis (snd (tool_run (Some idle_tool) example_fs (path_new ''@/old.bin'') [] example_world))) = 1
   \<and> \<not> fst (tool_run (Some throwing_tool) example_fs (path_new ''@/out.bin'') [] example_world)
   \<and> \<not> fs_fexist example_fs
        (disk (snd (tool_run (Some throwing_tool) example_fs (path_new ''@/out.bin'') [] example_world)))
        ''@/out.bin''"
proof -
  let ?out = "path_new ''@/out.bin''"
  let ?old = "path_new ''@/old.bin''"
  note a = tool_run_postconditions [OF surjective_pairing surjective_pairing,
      of write_tool example_fs ?out "[]" example_world]
  note b = tool_run_postconditions [OF surjective_pairing surjective_pairing,
      of idle_tool example_fs ?old "[]" example_world]
  note c = tool_run_postconditions [OF surjective_pairing surjective_pairing,
      of throwing_tool example_fs ?out "[]" example_world]
  have oa: "fst (tool_run (Some write_tool) example_fs ?out [] example_world)"
    by code_simp
  have ca: "path_cstr ?out = ''@/out.bin''" by code_simp
  have cb: "path_cstr ?old = ''@/old.bin''" by code_simp
  have pb: "fst (callback idle_tool (path_cstr ?old) (map path_cstr [])
               (tool_begin idle_tool example_fs ?old example_world)) = None"
    by code_simp
  have eb: "visor_num_errors (vis (snd (callback idle_tool (path_cstr ?old) (map path_cstr [])
               (tool_begin idle_tool example_fs ?old example_world))))
            \<le> visor_num_errors (vis (tool_begin idle_tool example_fs ?old example_world))"
    by code_simp
  have sb: "fs_stat example_fs (disk (snd (callback idle_tool (path_cstr ?old) (map path_cstr [])
               (tool_begin idle_tool example_fs ?old example_world)))) (path_cstr ?old)
            = Some (File 2 ''old'')"
    by code_simp
  have mb: "mtime (File 2 ''old'') = last_mtime example_fs ?old (tool_begin idle_tool example_fs ?old example_world)"
    by code_simp
  have wb: "visor_num_warns (vis (snd (callback idle_tool (path_cstr ?old) (map path_cstr [])
               (tool_begin idle_tool example_fs ?old example_world)))) = 0"
    by code_simp
  have oc: "\<not> fst (tool_run (Some throwing_tool) example_fs ?out [] example_world)"
    by code_simp
  from a oa have "fs_stat example_fs
        (disk (snd (tool_run (Some write_tool) example_fs ?out [] example_world))) (path_cstr ?out) \<noteq> None"
    by blast
  then have "fs_stat example_fs
        (disk (snd (tool_run (Some write_tool) example_fs ?out [] example_world))) ''@/out.bin'' \<noteq> None"
    unfolding ca .
  moreover from b pb eb sb mb wb
  have "fst (tool_run (Some idle_tool) example_fs ?old [] example_world)
      \<and> visor_num_warns (vis (snd (tool_run (Some idle_tool) example_fs ?old [] example_world))) = 1"
    by (metis One_nat_def)
  moreover from c oc
  have "\<not> fs_fexist example_fs
        (disk (snd (tool_run (Some throwing_tool) example_fs ?out [] example_world))) (path_cstr ?out)"
    by blast
  then have "\<not> fs_fexist example_fs
        (disk (snd (tool_run (Some throwing_tool) example_fs ?out [] example_world))) ''@/out.bin''"
    unfolding ca .
  ultimately show ?thesis using oa oc by blast
qed

text \<open>
  C9.  With a \<^verbatim>\<open>NULL\<close> tool \<^verbatim>\<open>tool_run\<close> returns true and the world it was given: no
  callback runs, no directory is made, the visor and every file are as they were.
\<close>

theorem tool_run_null: "tool_run None f out_path in_paths w = (True, w)"
  by (simp add: tool_run_def)

section \<open>The install tool\<close>

lemma mkdir_all_files:
  "mkdir_all pre hs t d = (ok, d') \<Longrightarrow> (d' k = Some (File m c)) = (d k = Some (File m c))"
proof (induction hs arbitrary: pre d)
  case Nil
  then show ?case by simp
next
  case (Cons h hs)
  then show ?case
    by (auto simp: Let_def split: option.splits node.splits if_splits)
qed

lemma path_mkdir_files:
  "path_mkdir p t d = (ok, d') \<Longrightarrow> (d' k = Some (File m c)) = (d k = Some (File m c))"
  unfolding path_mkdir_def by (rule mkdir_all_files)

lemma tinydir_copy_ok:
  "tinydir_copy d src dst False = (0, d') \<Longrightarrow>
     \<exists>m c. d (host_key src) = Some (File m c) \<and> d' = d(host_key dst \<mapsto> File m c)"
  by (auto simp: tinydir_copy_def split: option.splits node.splits if_splits)

lemma fs_fcopy_ok:
  assumes "fs_fcopy f d t dst src True = (0, d')"
  shows "\<exists>rd m c. resolve f dst = Some rd \<and> fs_fslurp f d src = Some c
            \<and> d' (host_key rd) = Some (File m c)"
proof -
  from assms obtain rd rs where r: "resolve f dst = Some rd" "resolve f src = Some rs"
    by (auto simp: fs_fcopy_def split: option.splits)
  obtain ok d1 where mk: "path_mkdir (path_new rd) t d = (ok, d1)"
    by (cases "path_mkdir (path_new rd) t d")
  with assms r have "tinydir_copy d1 rs rd False = (0, d')"
    by (simp add: fs_fcopy_def)
  then obtain m c where c: "d1 (host_key rs) = Some (File m c)" "d' = d1(host_key rd \<mapsto> File m c)"
    using tinydir_copy_ok by blast
  have "d (host_key rs) = Some (File m c)"
    using path_mkdir_files[OF mk] c(1) by simp
  then have "fs_fslurp f d src = Some c"
    using r by (simp add: fs_fslurp_def host_read_def)
  then show ?thesis using r c by auto
qed

text \<open>
  C7.  The install tool returns whether the copy of its single source onto the target
  succeeded.  When it did, the target is a file whose bytes are those the source had and
  whose mtime is the current time; when it did not, nothing is touched after the failed
  copy.
\<close>

theorem install_target_copies:
  "install_target f dst (src # rest) w = (r, w') \<Longrightarrow>
     r = Inr (fst (fs_fcopy f (disk w) (clock w) dst src True) = 0)
     \<and> (r = Inr True \<longrightarrow>
          (\<exists>c. fs_fslurp f (disk w) src = Some c
             \<and> fs_stat f (disk w') dst = Some (File (clock w) c)
             \<and> fs_fslurp f (disk w') dst = Some c))
     \<and> (r = Inr False \<longrightarrow> disk w' = snd (fs_fcopy f (disk w) (clock w) dst src True))"
proof -
  assume a: "install_target f dst (src # rest) w = (r, w')"
  obtain res d1 where cp: "fs_fcopy f (disk w) (clock w) dst src True = (res, d1)"
    by (cases "fs_fcopy f (disk w) (clock w) dst src True")
  have r: "r = Inr (res = 0)"
    and w': "w' = w\<lparr>disk := (if res = 0 then snd (fs_utime f d1 (clock w) dst) else d1)\<rparr>"
    using a cp by (auto simp: install_target_def Let_def)
  show ?thesis
  proof (cases "res = 0")
    case False
    then show ?thesis using r w' cp by simp
  next
    case True
    with cp obtain rd m c where c: "resolve f dst = Some rd" "fs_fslurp f (disk w) src = Some c"
        "d1 (host_key rd) = Some (File m c)"
      using fs_fcopy_ok by blast
    have "snd (fs_utime f d1 (clock w) dst) = d1(host_key rd \<mapsto> File (clock w) c)"
      using c by (simp add: fs_utime_def host_utime_def)
    then have "fs_stat f (disk w') dst = Some (File (clock w) c)"
      using w' True c by (simp add: fs_stat_def host_stat_def)
    moreover from this have "fs_fslurp f (disk w') dst = Some c"
      using c by (simp add: fs_fslurp_def fs_stat_def host_read_def host_stat_def)
    ultimately show ?thesis using r True c cp by simp
  qed
qed

theorem install_target_copies_witness:
  "fst (install_target example_fs ''@/a.txt'' [''$/a.txt''] example_world) = Inr True
   \<and> fs_fslurp example_fs (disk example_world) ''$/a.txt'' = Some ''A''
   \<and> fs_stat example_fs
        (disk (snd (install_target example_fs ''@/a.txt'' [''$/a.txt''] example_world)))
        ''@/a.txt'' = Some (File 7 ''A'')"
proof -
  let ?run = "install_target example_fs ''@/a.txt'' [''$/a.txt''] example_world"
  have ok: "fst ?run = Inr True" by code_simp
  have src: "fs_fslurp example_fs (disk example_world) ''$/a.txt'' = Some ''A''" by code_simp
  have clk: "clock example_world = 7" by code_simp
  note inst = install_target_copies [OF surjective_pairing,
      of example_fs "''@/a.txt''" "''$/a.txt''" "[]" example_world]
  from inst ok have "\<exists>c. fs_fslurp example_fs (disk example_world) ''$/a.txt'' = Some c
       \<and> fs_stat example_fs (disk (snd ?run)) ''@/a.txt'' = Some (File (clock example_world) c)"
    by blast
  with ok src clk show ?thesis by auto
qed

section \<open>Conflict detection\<close>

lemma runs_from_nonempty: "runs_from cur n xs \<noteq> []"
  by (induction xs arbitrary: cur n) auto

lemma hd_runs_from: "fst (hd (runs_from cur n xs)) = cur"
  by (induction xs arbitrary: cur n) auto

lemma reported_cons:
  "rs \<noteq> [] \<Longrightarrow> reported ((x, k) # rs) =
     (if k > 1 then [conflict_message k (fst (hd rs))] else []) @ reported rs"
  by (cases rs) auto

lemma scan_reports:
  "messages (close_run (scan_targets xs (cur, cur, n, v)))
     = messages v @ map ErrorMsg (reported (runs_from cur n xs))"
proof (induction xs arbitrary: cur n v)
  case Nil
  then show ?case by (simp add: close_run_def visor_error_def)
next
  case (Cons x xs)
  show ?case
  proof (cases "x = cur")
    case True
    then show ?thesis using Cons[of cur "Suc n" v] by simp
  next
    case False
    have "reported ((cur, n) # runs_from x 1 xs)
        = (if n > 1 then [conflict_message n x] else []) @ reported (runs_from x 1 xs)"
      using reported_cons[OF runs_from_nonempty] hd_runs_from by simp
    then show ?thesis
      using False Cons[of x 1 "if n > 1 then visor_error v (conflict_message n x) else v"]
      by (simp add: visor_error_def)
  qed
qed

text \<open>
  What the conflict check reports, for targets whose path names are not empty: one
  error for each run of two or more equal names in the sorted list, with the length of
  the run; a run that another run follows is reported under the name of the run that
  follows it, the last run under its own name.
\<close>

lemma detect_conflicts_reports:
  "[] \<notin> set (map (\<lambda>t. path_cstr (target_path t)) ts) \<Longrightarrow>
     messages (detect_conflicts ts v)
       = messages v @ map ErrorMsg
           (reported (runs (map (\<lambda>t. path_cstr (target_path t)) (sort_targets_by_path ts))))"
proof -
  assume ne: "[] \<notin> set (map (\<lambda>t. path_cstr (target_path t)) ts)"
  let ?xs = "map (\<lambda>t. path_cstr (target_path t)) (sort_targets_by_path ts)"
  have set: "set ?xs = set (map (\<lambda>t. path_cstr (target_path t)) ts)"
    by (simp add: sort_targets_by_path_def)
  have d: "detect_conflicts ts v = close_run (scan_targets ?xs ([], [], 1, v))"
    by (simp add: detect_conflicts_def close_run_def Let_def split: prod.splits)
  show ?thesis
  proof (cases ?xs)
    case Nil
    then show ?thesis unfolding d by (simp add: close_run_def runs_def)
  next
    case (Cons x rest)
    then have "x \<noteq> []" using ne set by (metis list.set_intros(1))
    then show ?thesis
      unfolding d Cons using scan_reports[of rest x 1 v] by (simp add: runs_def)
  qed
qed

text \<open>
  With an error on the visor after the conflict check, \<^verbatim>\<open>build_run\<close> returns false
  at once: no target is built, whatever \<^verbatim>\<open>target_build\<close> would do, and no file changes.
\<close>

lemma build_run_stops_on_conflict:
  "visor_num_errors (vis (check_conflicts b w)) > 0 \<Longrightarrow>
     build_run E target_build b want_debug rebuild_all w
       = Some (False, w\<lparr>vis := visor_end_op (vis (check_conflicts b w))\<rparr>)"
  by (simp add: build_run_def Let_def finished_def check_conflicts_def visor_num_errors_def
      visor_end_op_def)

text \<open>
  C3, evaluated where it fails.  Three targets, two of them with the output
  \<^verbatim>\<open>@/x.txt\<close>: the sorted names are \<^verbatim>\<open>@/x.txt\<close>, \<^verbatim>\<open>@/x.txt\<close>, \<^verbatim>\<open>src/a.txt\<close>, and the one
  error the check emits counts the two targets but names \<^verbatim>\<open>src/a.txt\<close>, the path that
  ended the run of equal names, because the source prints \<^verbatim>\<open>filename\<close> where it means
  \<^verbatim>\<open>last_filename\<close>.
\<close>

theorem detect_conflicts_names_next_path:
  "map (\<lambda>t. path_cstr (target_path t)) (sort_targets_by_path (targets conflicting_build))
     = [''@/x.txt'', ''@/x.txt'', ''src/a.txt'']
   \<and> messages (detect_conflicts (targets conflicting_build) empty_visor)
     = [ErrorMsg (''2-way conflict '' @ quoted ''src/a.txt'')]"
  by code_simp

section \<open>The manifests\<close>

text \<open>What \<open>scan_int\<close> and \<open>sscanf_dxd\<close> accept, and what they store.\<close>

lemma digit_not_space: "is_digit c \<Longrightarrow> \<not> is_space c"
  by (auto simp: is_digit_def is_space_def)

lemma digit_not_sign: "is_digit c \<Longrightarrow> c \<noteq> CHR ''-'' \<and> c \<noteq> CHR ''+'' \<and> c \<noteq> CHR ''x''"
  by (auto simp: is_digit_def)

lemma sign_not_space: "\<not> is_space CHR ''-''" "\<not> is_space CHR ''+''"
  by (simp_all add: is_space_def)

lemma while_stop:
  "r = [] \<or> \<not> P (hd r) \<Longrightarrow> takeWhile P r = [] \<and> dropWhile P r = r"
  by (cases r) auto

lemma takeWhile_run:
  "list_all P ds \<Longrightarrow> r = [] \<or> \<not> P (hd r) \<Longrightarrow>
     takeWhile P (ds @ r) = ds \<and> dropWhile P (ds @ r) = r"
  by (induction ds) (simp_all add: while_stop)

lemma dropWhile_blank:
  "blank ws \<Longrightarrow> s = [] \<or> \<not> is_space (hd s) \<Longrightarrow> dropWhile is_space (ws @ s) = s"
  unfolding blank_def by (induction ws) (simp_all add: while_stop)

lemma scan_int_shape:
  assumes "blank ws" "sign_text sg" "digit_text ds" "r = [] \<or> \<not> is_digit (hd r)"
  shows "scan_int (ws @ sg @ ds @ r) = Some (c_int (c_long (signed_value sg ds)), r)"
proof -
  from assms(3) obtain c cs where ds: "ds = c # cs" and c: "is_digit c" and all: "list_all is_digit ds"
    by (cases ds) (auto simp: digit_text_def)
  have run: "takeWhile is_digit (ds @ r) = ds" "dropWhile is_digit (ds @ r) = r"
    using takeWhile_run[OF all assms(4)] by simp_all
  have hd: "\<not> is_space (hd (sg @ ds @ r))"
    using assms(2) c ds digit_not_space sign_not_space by (auto simp: sign_text_def)
  have dw: "dropWhile is_space (ws @ sg @ ds @ r) = sg @ ds @ r"
    using dropWhile_blank[OF assms(1), of "sg @ ds @ r"] hd by simp
  show ?thesis
    using assms(2) run ds c digit_not_sign[OF c] dw
    by (auto simp: scan_int_def Let_def sign_text_def signed_value_def)
qed






lemma sscanf_dxd_value:
  assumes "blank ws1" "sign_text sg1" "digit_text ds1"
    and "blank ws2" "sign_text sg2" "digit_text ds2"
    and "rest = [] \<or> \<not> is_digit (hd rest)"
  shows "sscanf_dxd (ws1 @ sg1 @ ds1 @ ''x'' @ ws2 @ sg2 @ ds2 @ rest)
     = Some (c_int (c_long (signed_value sg1 ds1)), c_int (c_long (signed_value sg2 ds2)))"
proof -
  have x: "''x'' @ ws2 @ sg2 @ ds2 @ rest = [] \<or> \<not> is_digit (hd (''x'' @ ws2 @ sg2 @ ds2 @ rest))"
    by (simp add: is_digit_def)
  show ?thesis
    using scan_int_shape[OF assms(1-3) x] scan_int_shape[OF assms(4-7)]
    by (simp add: sscanf_dxd_def)
qed

text \<open>
  A width beyond the range of \<^verbatim>\<open>int\<close> is stored reduced: \<^verbatim>\<open>4294967616\<close> is \<open>2 ^ 32 + 320\<close>.
\<close>

lemma sscanf_dxd_wraps: "sscanf_dxd ''4294967616x240'' = Some (320, 240)"
  by code_simp

lemma host_key_snoc: "c \<noteq> CHR ''/'' \<Longrightarrow> host_key (s @ [c]) = s @ [c]"
  by (simp add: host_key_def)

lemma resolve_game_json: "resolve f ''@/game.json'' = Some (game_dir f @ ''game.json'')"
  by (simp add: resolve_def resolve_path_def path_new_def path_is_rooted_def path_num_hops_def
      path_hop_is_def path_remove_hop_def path_rebase_def path_cstr_def path_filename_def Let_def
      game_dir_def)

lemma resolve_game_sgm: "resolve f ''@/game.sgm'' = Some (game_dir f @ ''game.sgm'')"
  by (simp add: resolve_def resolve_path_def path_new_def path_is_rooted_def path_num_hops_def
      path_hop_is_def path_remove_hop_def path_rebase_def path_cstr_def path_filename_def Let_def
      game_dir_def)

lemma resolve_artifacts_json:
  "resolve f ''@/artifacts.json'' = Some (game_dir f @ ''artifacts.json'')"
  by (simp add: resolve_def resolve_path_def path_new_def path_is_rooted_def path_num_hops_def
      path_hop_is_def path_remove_hop_def path_rebase_def path_cstr_def path_filename_def Let_def
      game_dir_def)

lemma key_game_json: "host_key (P @ ''game.json'') = P @ ''game.json''"
  using host_key_snoc[of "CHR ''n''" "P @ ''game.jso''"] by simp

lemma key_game_sgm: "host_key (P @ ''game.sgm'') = P @ ''game.sgm''"
  using host_key_snoc[of "CHR ''m''" "P @ ''game.sg''"] by simp

lemma key_artifacts_json: "host_key (P @ ''artifacts.json'') = P @ ''artifacts.json''"
  using host_key_snoc[of "CHR ''n''" "P @ ''artifacts.jso''"] by simp

lemmas manifest_names = resolve_game_json resolve_game_sgm resolve_artifacts_json
  key_game_json key_game_sgm key_artifacts_json







text \<open>
  \<^verbatim>\<open>write_manifests\<close> returns unless the descriptor is accepted and \<^verbatim>\<open>game.sgm\<close> cannot
  be opened for writing; the source then prints to a \<^verbatim>\<open>NULL\<close> stream.
\<close>

lemma write_manifests_returns:
  "write_manifests E f w = None \<longleftrightarrow>
     resolution_ok (get_prop (descriptor w) ''resolution'')
     \<and> main_ok f (disk w) (get_prop (descriptor w) ''main'')
     \<and> fst (fs_fopen f (disk w) (clock w) ''@/game.sgm'' ''wb'') = None"
  by (auto simp: write_manifests_def write_manifest_files_def manifest_failed_def Let_def
      resolution_ok_def main_ok_def split: option.splits prod.splits if_splits)




section \<open>The end of a build run\<close>

lemma unlink_manifests_effect:
  "\<not> fs_fexist f (disk (unlink_manifests f w)) ''@/game.json''"
  "\<not> fs_fexist f (disk (unlink_manifests f w)) ''@/game.sgm''"
  "fs_stat f (disk (unlink_manifests f w)) ''@/artifacts.json''
     = fs_stat f (disk w) ''@/artifacts.json''"
  by (auto simp: unlink_manifests_def fs_fexist_def fs_stat_def fs_unlink_def host_stat_def
      host_unlink_def manifest_names split: option.splits node.splits)

lemma check_conflicts_disk: "disk (check_conflicts b w) = disk w"
  by (simp add: check_conflicts_def)

lemma remove_artifacts_errors:
  "visor_num_errors (vis (remove_artifacts f k as w)) = visor_num_errors (vis w)"
  by (induction as arbitrary: w)
     (auto simp: visor_num_errors_def visor_end_op_def visor_begin_op_def)

lemma clean_old_artifacts_errors:
  "visor_num_errors (vis (clean_old_artifacts b k w)) = visor_num_errors (vis w)"
  using remove_artifacts_errors[of "fs_of b" k "artifacts b"
      "w\<lparr>vis := visor_begin_op (vis w) ''cleaning up old build artifacts''\<rparr>"]
  by (simp add: clean_old_artifacts_def Let_def visor_num_errors_def visor_end_op_def
      visor_begin_op_def)

lemma write_manifests_ok_errors:
  "write_manifests E f w = Some (True, w') \<Longrightarrow>
     visor_num_errors (vis w') = visor_num_errors (vis w)"
  by (auto simp: write_manifests_def write_manifest_files_def manifest_failed_def Let_def
      visor_num_errors_def manifest_warnings_def
      visor_end_op_def visor_error_def visor_warn_def visor_begin_op_def
      split: option.splits if_splits prod.splits)

lemma write_tail_errors:
  "visor_num_errors (vis (write_artifacts E b (write_source_map E b dbg w)))
     = visor_num_errors (vis w)"
  by (simp add: write_artifacts_def write_source_map_def visor_num_errors_def visor_end_op_def
      visor_begin_op_def)

lemma write_manifests_failed_disk:
  "write_manifests E f w = Some (False, w') \<Longrightarrow> disk w' = disk w"
  by (auto simp: write_manifests_def write_manifest_files_def manifest_failed_def Let_def
      split: option.splits if_splits prod.splits)

lemma fs_unlink_other:
  "map_option host_key (resolve f a) \<noteq> Some k \<Longrightarrow> snd (fs_unlink f d a) k = d k"
  by (auto simp: fs_unlink_def host_unlink_def split: option.splits node.splits)

lemma remove_artifacts_other:
  "\<forall>a \<in> set as. map_option host_key (resolve f a) \<noteq> Some k \<Longrightarrow>
     disk (remove_artifacts f keep as w) k = disk w k"
proof (induction as arbitrary: w)
  case Nil
  show ?case by simp
next
  case (Cons a as)
  have a: "map_option host_key (resolve f a) \<noteq> Some k" using Cons.prems by simp
  have r: "\<forall>a \<in> set as. map_option host_key (resolve f a) \<noteq> Some k" using Cons.prems by simp
  show ?case
    using Cons.IH[OF r] fs_unlink_other[OF a] by (cases keep) simp_all
qed

lemma clean_old_artifacts_other:
  "\<forall>a \<in> set (artifacts b). map_option host_key (resolve (fs_of b) a) \<noteq> Some k \<Longrightarrow>
     disk (clean_old_artifacts b keep w) k = disk w k"
  using remove_artifacts_other[of "artifacts b" "fs_of b" k keep
      "w\<lparr>vis := visor_begin_op (vis w) ''cleaning up old build artifacts''\<rparr>"]
  by (simp add: clean_old_artifacts_def Let_def)

lemma artifacts_stat:
  "fs_stat f d ''@/artifacts.json'' = d (game_dir f @ ''artifacts.json'')"
  by (simp add: fs_stat_def host_stat_def manifest_names)

text \<open>\<^verbatim>\<open>build_run\<close> returns unless \<^verbatim>\<open>write_manifests\<close> is reached and does not.\<close>

lemma build_run_returns:
  "build_run E target_build b want_debug rebuild_all w = None \<longleftrightarrow>
     visor_num_errors (vis (check_conflicts b w)) = 0
     \<and> visor_num_errors (vis (build_all target_build b rebuild_all w)) = 0
     \<and> write_manifests E (fs_of b)
          (clean_old_artifacts b True (build_all target_build b rebuild_all w)) = None"
  by (auto simp: build_run_def Let_def split: option.splits prod.splits if_splits)

text \<open>
  C4, as the code has it.  A run of \<^verbatim>\<open>build_run\<close> that returns with a non-zero error
  count returns false and writes nothing to \<^verbatim>\<open>artifacts.json\<close>.  If the errors were
  there when the conflict check was done, no file is touched: the manifests stay.  If
  they came from building the targets, \<^verbatim>\<open>game.json\<close> and \<^verbatim>\<open>game.sgm\<close> are unlinked and
  the files are otherwise as the target builds left them.  If they came from writing the
  manifests, the old artifacts have been removed before, and \<^verbatim>\<open>game.json\<close> and
  \<^verbatim>\<open>game.sgm\<close> are unlinked from the files that removal left.  In both cases
  \<^verbatim>\<open>artifacts.json\<close> is as it was left then, and as the target builds left it if no name
  in the previous artifact list is a name of it.
\<close>

theorem build_run_on_errors:
  "build_run E target_build b want_debug rebuild_all w = Some (ok, w') \<Longrightarrow>
   visor_num_errors (vis w') > 0 \<Longrightarrow>
     \<not> ok
     \<and> (visor_num_errors (vis (check_conflicts b w)) > 0 \<longrightarrow> disk w' = disk w)
     \<and> (visor_num_errors (vis (check_conflicts b w)) = 0 \<longrightarrow>
          (let w2 = build_all target_build b rebuild_all w;
               w3 = (if visor_num_errors (vis w2) = 0 then clean_old_artifacts b True w2 else w2)
           in disk w' = disk (unlink_manifests (fs_of b) w3)
              \<and> \<not> fs_fexist (fs_of b) (disk w') ''@/game.json''
              \<and> \<not> fs_fexist (fs_of b) (disk w') ''@/game.sgm''
              \<and> fs_stat (fs_of b) (disk w') ''@/artifacts.json''
                  = fs_stat (fs_of b) (disk w3) ''@/artifacts.json''
              \<and> ((\<forall>a \<in> set (artifacts b).
                     map_option host_key (resolve (fs_of b) a)
                       \<noteq> map_option host_key (resolve (fs_of b) ''@/artifacts.json'')) \<longrightarrow>
                   fs_stat (fs_of b) (disk w') ''@/artifacts.json''
                     = fs_stat (fs_of b) (disk w2) ''@/artifacts.json'')))"
proof -
  assume run: "build_run E target_build b want_debug rebuild_all w = Some (ok, w')"
    and err: "visor_num_errors (vis w') > 0"
  let ?f = "fs_of b"
  let ?w1 = "check_conflicts b w"
  let ?w2 = "build_all target_build b rebuild_all w"
  let ?wc = "clean_old_artifacts b True ?w2"
  let ?w3 = "if visor_num_errors (vis ?w2) = 0 then ?wc else ?w2"
  have keep: "(\<forall>a \<in> set (artifacts b).
                     map_option host_key (resolve ?f a)
                       \<noteq> map_option host_key (resolve ?f ''@/artifacts.json'')) \<longrightarrow>
       fs_stat ?f (disk ?w3) ''@/artifacts.json'' = fs_stat ?f (disk ?w2) ''@/artifacts.json''"
    using clean_old_artifacts_other[of b "game_dir ?f @ ''artifacts.json''" True ?w2]
    by (simp add: artifacts_stat manifest_names)
  show ?thesis
  proof (cases "visor_num_errors (vis ?w1) > 0")
    case True
    then have "(ok, w') = finished (?w1\<lparr>vis := visor_end_op (vis ?w1)\<rparr>)"
      using run by (simp add: build_run_def Let_def)
    then show ?thesis
      using True err by (auto simp: finished_def check_conflicts_disk)
  next
    case False
    note no_conflict = this
    have "ok = (visor_num_errors (vis w') = 0) \<and> disk w' = disk (unlink_manifests ?f ?w3)"
    proof (cases "visor_num_errors (vis ?w2) = 0")
      case False
      then have "(ok, w') = finished (unlink_manifests ?f ?w2)"
        using run no_conflict by (simp add: build_run_def Let_def)
      then show ?thesis using False by (auto simp: finished_def)
    next
      case True
      from run no_conflict True obtain r w3
        where wm: "write_manifests E ?f ?wc = Some (r, w3)"
        and rest: "(ok, w') = (if \<not> r then finished (unlink_manifests ?f w3)
            else finished (write_artifacts E b (write_source_map E b want_debug w3)))"
        by (auto simp: build_run_def Let_def split: option.splits prod.splits if_splits)
      show ?thesis
      proof (cases r)
        case False
        then have "ok = (visor_num_errors (vis w') = 0)" "w' = unlink_manifests ?f w3"
          using rest by (auto simp: finished_def)
        moreover have "write_manifests E ?f ?wc = Some (False, w3)" using wm False by simp
        then have "disk w3 = disk ?wc" by (rule write_manifests_failed_disk)
        ultimately show ?thesis using True by (simp add: unlink_manifests_def)
      next
        case r: True
        then have "w' = write_artifacts E b (write_source_map E b want_debug w3)"
          using rest by (auto simp: finished_def)
        then have "visor_num_errors (vis w') = visor_num_errors (vis ?w2)"
          using wm r write_manifests_ok_errors[of E ?f ?wc w3]
          by (simp add: write_tail_errors clean_old_artifacts_errors)
        then show ?thesis using err True by simp
      qed
    qed
    then have ok: "\<not> ok" and d: "disk w' = disk (unlink_manifests ?f ?w3)"
      using err by simp_all
    note u = unlink_manifests_effect[of ?f ?w3]
    show ?thesis
      unfolding Let_def using no_conflict ok d u keep by simp
  qed
qed


theorem build_run_on_errors_witness:
  "\<not> fst (the (build_run example_engine failing_target_build single_build False False stale_world))
   \<and> fs_fexist example_fs (disk stale_world) ''@/game.json''
   \<and> \<not> fs_fexist example_fs
        (disk (snd (the (build_run example_engine failing_target_build single_build False False
                           stale_world))))
        ''@/game.json''
   \<and> \<not> fs_fexist example_fs
        (disk (snd (the (build_run example_engine failing_target_build single_build False False
                           stale_world))))
        ''@/game.sgm''
   \<and> fs_stat example_fs
        (disk (snd (the (build_run example_engine failing_target_build single_build False False
                           stale_world))))
        ''@/artifacts.json'' = Some (File 2 ''OLD'')
   \<and> \<not> fst (the (build_run example_engine idle_target_build listing_build False False stale_world))
   \<and> \<not> fs_fexist example_fs
        (disk (snd (the (build_run example_engine idle_target_build listing_build False False
                           stale_world))))
        ''@/game.json''
   \<and> fs_stat example_fs
        (disk (snd (the (build_run example_engine idle_target_build listing_build False False
                           stale_world))))
        ''@/artifacts.json'' = None"
proof -
  let ?R = "build_run example_engine failing_target_build single_build False False stale_world"
  let ?Q = "build_run example_engine idle_target_build listing_build False False stale_world"
  have "?R \<noteq> None" by code_simp
  then have r: "?R = Some (fst (the ?R), snd (the ?R))" by auto
  have e: "visor_num_errors (vis (snd (the ?R))) > 0" by code_simp
  have c: "visor_num_errors (vis (check_conflicts single_build stale_world)) = 0" by code_simp
  have f: "fs_of single_build = example_fs" by (simp add: single_build_def)
  have g: "fs_fexist example_fs (disk stale_world) ''@/game.json''" by code_simp
  have n: "\<forall>a \<in> set (artifacts single_build).
      map_option host_key (resolve example_fs a)
        \<noteq> map_option host_key (resolve example_fs ''@/artifacts.json'')"
    by (simp add: single_build_def)
  have o: "fs_stat example_fs
      (disk (build_all failing_target_build single_build False stale_world)) ''@/artifacts.json''
      = Some (File 2 ''OLD'')" by code_simp
  note t = build_run_on_errors [OF r e, unfolded Let_def f]
  from t have r1: "\<not> fst (the ?R)" by (rule conjunct1)
  note u = t [THEN conjunct2, THEN conjunct2, rule_format, OF c]
  from u have r2: "\<not> fs_fexist example_fs (disk (snd (the ?R))) ''@/game.json''"
    and r3: "\<not> fs_fexist example_fs (disk (snd (the ?R))) ''@/game.sgm''"
    by blast+
  note kept = u [THEN conjunct2, THEN conjunct2, THEN conjunct2, THEN conjunct2, THEN mp, OF n]
  have r4: "fs_stat example_fs (disk (snd (the ?R))) ''@/artifacts.json''
      = Some (File 2 ''OLD'')"
    using kept unfolding o .
  have "?Q \<noteq> None" by code_simp
  then have q: "?Q = Some (fst (the ?Q), snd (the ?Q))" by auto
  have e': "visor_num_errors (vis (snd (the ?Q))) > 0" by code_simp
  have c': "visor_num_errors (vis (check_conflicts listing_build stale_world)) = 0" by code_simp
  have f': "fs_of listing_build = example_fs" by (simp add: listing_build_def)
  have z: "visor_num_errors (vis (build_all idle_target_build listing_build False stale_world)) = 0"
    by code_simp
  have o': "fs_stat example_fs
      (disk (clean_old_artifacts listing_build True
               (build_all idle_target_build listing_build False stale_world)))
      ''@/artifacts.json'' = None" by code_simp
  note t' = build_run_on_errors [OF q e', unfolded Let_def f']
  from t' have q1: "\<not> fst (the ?Q)" by (rule conjunct1)
  note u' = t' [THEN conjunct2, THEN conjunct2, rule_format, OF c']
  from u' have q2: "\<not> fs_fexist example_fs (disk (snd (the ?Q))) ''@/game.json''"
    by blast
  have w3: "(if visor_num_errors
                  (vis (build_all idle_target_build listing_build False stale_world)) = 0
             then clean_old_artifacts listing_build True
                    (build_all idle_target_build listing_build False stale_world)
             else build_all idle_target_build listing_build False stale_world)
      = clean_old_artifacts listing_build True
          (build_all idle_target_build listing_build False stale_world)"
    using z by simp
  note left = u' [THEN conjunct2, THEN conjunct2, THEN conjunct2, THEN conjunct1]
  have q3: "fs_stat example_fs (disk (snd (the ?Q))) ''@/artifacts.json'' = None"
    using left unfolding w3 o' .
  from r1 g r2 r3 r4 q1 q2 q3 show ?thesis by blast
qed

text \<open>
  C4, as stated, fails twice.  A run stopped by a conflict returns false and leaves
  \<^verbatim>\<open>game.json\<close> in place; a run in which a target fails returns false and leaves the old
  text in \<^verbatim>\<open>artifacts.json\<close>, not the encoding of the new artifact list.
\<close>

theorem build_run_counterexample:
  "map_option fst
      (build_run example_engine failing_target_build conflicting_build False False stale_world)
     = Some False
   \<and> fs_fexist example_fs
        (disk (snd (the (build_run example_engine failing_target_build conflicting_build False
                           False stale_world))))
        ''@/game.json''
   \<and> map_option fst
        (build_run example_engine failing_target_build single_build False False stale_world)
       = Some False
   \<and> visor_filenames
        (vis (snd (the (build_run example_engine failing_target_build single_build False False
                          stale_world))))
       = [''@/y.txt'']
   \<and> fs_fslurp example_fs
        (disk (snd (the (build_run example_engine failing_target_build single_build False False
                           stale_world))))
        ''@/artifacts.json''
       = Some ''OLD''
   \<and> json_encode_strings example_engine [''@/y.txt''] \<noteq> ''OLD''"
  by code_simp

section \<open>File streams\<close>








section \<open>Module resolution\<close>

lemma find_loop_None:
  "find_loop E f d module_id org xs = None \<longleftrightarrow>
     (\<forall>x \<in> set xs. try_candidate E f d (candidate module_id org x) = None)"
  by (induction xs) (auto split: option.splits)

lemma find_loop_Some:
  "find_loop E f d module_id org xs = Some p \<Longrightarrow>
     \<exists>i < length xs. try_candidate E f d (candidate module_id org (xs ! i)) = Some p
        \<and> (\<forall>j < i. try_candidate E f d (candidate module_id org (xs ! j)) = None)"
proof (induction xs)
  case Nil
  then show ?case by simp
next
  case (Cons x xs)
  show ?case
  proof (cases "try_candidate E f d (candidate module_id org x)")
    case None
    with Cons obtain i where i: "i < length xs"
        "try_candidate E f d (candidate module_id org (xs ! i)) = Some p"
        "\<forall>j < i. try_candidate E f d (candidate module_id org (xs ! j)) = None"
      by auto
    have "\<forall>j < Suc i. try_candidate E f d (candidate module_id org ((x # xs) ! j)) = None"
      using None i(3) by (auto simp: nth_Cons split: nat.splits)
    with i(1,2) show ?thesis by (intro exI[of _ "Suc i"]) auto
  next
    case (Some q)
    with Cons.prems have "q = p" by simp
    with Some show ?thesis by (intro exI[of _ 0]) auto
  qed
qed

lemma try_candidate_Some:
  "try_candidate E f d c = Some q \<Longrightarrow>
     fs_fexist f d (path_cstr c) \<and> fs_fexist f d (path_cstr q)
     \<and> (if path_filename c = ''package.json''
         then load_package_json E f d (path_cstr c) = Some q else q = c)"
  by (auto simp: try_candidate_def split: if_splits option.splits)

lemma try_candidate_package:
  assumes "fs_fexist f d (path_cstr c)" and "path_filename c = ''package.json''"
  shows "try_candidate E f d c = Some q \<longleftrightarrow>
     (\<exists>json main. fs_fslurp f d (path_cstr c) = Some json \<and> package_main E json = Some main
        \<and> q = path_collapse (path_append (path_strip (path_new (path_cstr c))) main) True
        \<and> fs_fexist f d (path_cstr q))"
  using assms
  by (auto simp: try_candidate_def load_package_json_def Let_def split: option.splits if_splits)

text \<open>
  C6, as the code has it.  The names tried are, in this order, the id followed by
  nothing, \<^verbatim>\<open>.mjs\<close>, \<^verbatim>\<open>.js\<close>, \<^verbatim>\<open>.json\<close>, \<^verbatim>\<open>/package.json\<close>, \<^verbatim>\<open>/index.mjs\<close>,
  \<^verbatim>\<open>/index.js\<close>, \<^verbatim>\<open>/index.json\<close>; the result is what the first candidate that yields
  anything yields, and nothing when none does.  A candidate that does not exist yields
  nothing; an existing one whose file name is not \<^verbatim>\<open>package.json\<close> yields itself; an
  existing one whose file name is \<^verbatim>\<open>package.json\<close>, whichever entry of the table
  produced it, yields exactly the file its \<^verbatim>\<open>main\<close> names beside it, if the description
  has a \<^verbatim>\<open>main\<close> and that file exists, and nothing otherwise: never itself.  A relative
  id required from global code is rejected with the type error of the claim.
\<close>

theorem find_cjs_module_first_hit:
  "map (\<lambda>fmt. strnewf fmt module_id) filenames_table
     = [module_id, module_id @ ''.mjs'', module_id @ ''.js'', module_id @ ''.json'',
        module_id @ ''/package.json'', module_id @ ''/index.mjs'', module_id @ ''/index.js'',
        module_id @ ''/index.json'']
   \<and> (find_cjs_module E f d module_id origin sys_origin = None \<longleftrightarrow>
        (\<forall>fmt \<in> set filenames_table.
           try_candidate E f d
             (candidate module_id (origin_path module_id origin sys_origin) fmt) = None))
   \<and> (\<forall>p. find_cjs_module E f d module_id origin sys_origin = Some p \<longrightarrow>
        (\<exists>i < length filenames_table.
           try_candidate E f d
             (candidate module_id (origin_path module_id origin sys_origin) (filenames_table ! i))
             = Some p
           \<and> (\<forall>j < i. try_candidate E f d
                 (candidate module_id (origin_path module_id origin sys_origin)
                    (filenames_table ! j)) = None)))
   \<and> (\<forall>c q. try_candidate E f d c = Some q \<longrightarrow>
        fs_fexist f d (path_cstr c) \<and> fs_fexist f d (path_cstr q)
        \<and> (if path_filename c = ''package.json''
            then load_package_json E f d (path_cstr c) = Some q else q = c))
   \<and> (\<forall>c. \<not> fs_fexist f d (path_cstr c) \<longrightarrow> try_candidate E f d c = None)
   \<and> (\<forall>c. fs_fexist f d (path_cstr c) \<and> path_filename c \<noteq> ''package.json'' \<longrightarrow>
        try_candidate E f d c = Some c)
   \<and> (\<forall>c q. fs_fexist f d (path_cstr c) \<and> path_filename c = ''package.json'' \<longrightarrow>
        (try_candidate E f d c = Some q \<longleftrightarrow>
           (\<exists>json main.
              fs_fslurp f d (path_cstr c) = Some json \<and> package_main E json = Some main
              \<and> q = path_collapse (path_append (path_strip (path_new (path_cstr c))) main) True
              \<and> fs_fexist f d (path_cstr q))))
   \<and> (is_relative_id module_id \<longrightarrow>
        js_require E f None module_id w
          = (Threw (type_error ''relative require not allowed in global code''), w))"
proof -
  have p1: "map (\<lambda>fmt. strnewf fmt module_id) filenames_table
     = [module_id, module_id @ ''.mjs'', module_id @ ''.js'', module_id @ ''.json'',
        module_id @ ''/package.json'', module_id @ ''/index.mjs'', module_id @ ''/index.js'',
        module_id @ ''/index.json'']"
    by (simp add: filenames_table_def strnewf_def)
  have p2: "find_cjs_module E f d module_id origin sys_origin = None \<longleftrightarrow>
        (\<forall>fmt \<in> set filenames_table.
           try_candidate E f d
             (candidate module_id (origin_path module_id origin sys_origin) fmt) = None)"
    unfolding find_cjs_module_def by (rule find_loop_None)
  have p3: "\<forall>p. find_cjs_module E f d module_id origin sys_origin = Some p \<longrightarrow>
        (\<exists>i < length filenames_table.
           try_candidate E f d
             (candidate module_id (origin_path module_id origin sys_origin) (filenames_table ! i))
             = Some p
           \<and> (\<forall>j < i. try_candidate E f d
                 (candidate module_id (origin_path module_id origin sys_origin)
                    (filenames_table ! j)) = None))"
    unfolding find_cjs_module_def using find_loop_Some by blast
  have p4: "\<forall>c q. try_candidate E f d c = Some q \<longrightarrow>
        fs_fexist f d (path_cstr c) \<and> fs_fexist f d (path_cstr q)
        \<and> (if path_filename c = ''package.json''
            then load_package_json E f d (path_cstr c) = Some q else q = c)"
    using try_candidate_Some by blast
  have p5: "\<forall>c. \<not> fs_fexist f d (path_cstr c) \<longrightarrow> try_candidate E f d c = None"
    by (simp add: try_candidate_def)
  have p6: "\<forall>c. fs_fexist f d (path_cstr c) \<and> path_filename c \<noteq> ''package.json'' \<longrightarrow>
        try_candidate E f d c = Some c"
    by (simp add: try_candidate_def)
  have p7: "\<forall>c q. fs_fexist f d (path_cstr c) \<and> path_filename c = ''package.json'' \<longrightarrow>
        (try_candidate E f d c = Some q \<longleftrightarrow>
           (\<exists>json main.
              fs_fslurp f d (path_cstr c) = Some json \<and> package_main E json = Some main
              \<and> q = path_collapse (path_append (path_strip (path_new (path_cstr c))) main) True
              \<and> fs_fexist f d (path_cstr q)))"
  proof (intro allI impI)
    fix c q
    assume h: "fs_fexist f d (path_cstr c) \<and> path_filename c = ''package.json''"
    show "try_candidate E f d c = Some q \<longleftrightarrow>
           (\<exists>json main.
              fs_fslurp f d (path_cstr c) = Some json \<and> package_main E json = Some main
              \<and> q = path_collapse (path_append (path_strip (path_new (path_cstr c))) main) True
              \<and> fs_fexist f d (path_cstr q))"
      by (rule try_candidate_package) (use h in simp_all)
  qed
  have p8: "is_relative_id module_id \<longrightarrow>
        js_require E f None module_id w
          = (Threw (type_error ''relative require not allowed in global code''), w)"
    by (simp add: js_require_def)
  show ?thesis
    by (rule conjI [OF p1 conjI [OF p2 conjI [OF p3 conjI [OF p4 conjI [OF p5 conjI [OF p6
          conjI [OF p7 p8]]]]]]])
qed

theorem find_cjs_module_first_hit_witness:
  "try_candidate example_engine example_fs (disk module_world)
      \<lparr>hops = [''$'', ''lib''], leaf = Some ''util.js''\<rparr>
     = Some \<lparr>hops = [''$'', ''lib''], leaf = Some ''util.js''\<rparr>
   \<and> try_candidate example_engine example_fs (disk module_world)
        (candidate ''nothing'' (origin_path ''nothing'' None ''$/lib'') ''.js'') = None
   \<and> fs_fexist example_fs (disk module_world)
        (path_cstr (the (find_cjs_module example_engine example_fs (disk module_world) ''util''
                           None ''$/lib'')))
   \<and> try_candidate example_engine example_fs (disk module_world)
        \<lparr>hops = [''$'', ''lib'', ''pkg''], leaf = Some ''package.json''\<rparr>
     = Some \<lparr>hops = [''$'', ''lib'', ''pkg''], leaf = Some ''entry.js''\<rparr>
   \<and> try_candidate example_engine example_fs (disk module_world)
        \<lparr>hops = [''$'', ''lib''], leaf = Some ''missing.js''\<rparr> = None
   \<and> js_require example_engine example_fs None ''./util'' module_world
       = (Threw (type_error ''relative require not allowed in global code''), module_world)"
proof -
  note a = find_cjs_module_first_hit
    [of "''util''" example_engine example_fs "disk module_world" None "''$/lib''" module_world]
  note b = find_cjs_module_first_hit
    [of "''nothing''" example_engine example_fs "disk module_world" None "''$/lib''" module_world]
  note c = find_cjs_module_first_hit
    [of "''./util''" example_engine example_fs "disk module_world" None "''$/lib''" module_world]
  have e1: "fs_fexist example_fs (disk module_world)
      (path_cstr \<lparr>hops = [''$'', ''lib''], leaf = Some ''util.js''\<rparr>)
      \<and> path_filename \<lparr>hops = [''$'', ''lib''], leaf = Some ''util.js''\<rparr> \<noteq> ''package.json''"
    by code_simp
  have e2: "find_cjs_module example_engine example_fs (disk module_world) ''nothing'' None ''$/lib''
      = None" by code_simp
  have e3: "''.js'' \<in> set filenames_table" by code_simp
  have e4: "find_cjs_module example_engine example_fs (disk module_world) ''util'' None ''$/lib''
      \<noteq> None" by code_simp
  have e5: "is_relative_id ''./util''" by code_simp
  have e6: "fs_fexist example_fs (disk module_world)
      (path_cstr \<lparr>hops = [''$'', ''lib'', ''pkg''], leaf = Some ''package.json''\<rparr>)
      \<and> path_filename \<lparr>hops = [''$'', ''lib'', ''pkg''], leaf = Some ''package.json''\<rparr>
          = ''package.json''"
    by code_simp
  have e7: "fs_fslurp example_fs (disk module_world)
        (path_cstr \<lparr>hops = [''$'', ''lib'', ''pkg''], leaf = Some ''package.json''\<rparr>)
      = Some ''main=entry.js''
      \<and> package_main example_engine ''main=entry.js'' = Some ''entry.js''
      \<and> \<lparr>hops = [''$'', ''lib'', ''pkg''], leaf = Some ''entry.js''\<rparr>
          = path_collapse (path_append (path_strip (path_new
              (path_cstr \<lparr>hops = [''$'', ''lib'', ''pkg''], leaf = Some ''package.json''\<rparr>)))
              ''entry.js'') True
      \<and> fs_fexist example_fs (disk module_world)
          (path_cstr \<lparr>hops = [''$'', ''lib'', ''pkg''], leaf = Some ''entry.js''\<rparr>)"
    by code_simp
  have e8: "\<not> fs_fexist example_fs (disk module_world)
      (path_cstr \<lparr>hops = [''$'', ''lib''], leaf = Some ''missing.js''\<rparr>)"
    by code_simp
  note hit = a [THEN conjunct2, THEN conjunct2, THEN conjunct2, THEN conjunct2, THEN conjunct2,
      THEN conjunct1, rule_format, OF e1]
  have s1: "try_candidate example_engine example_fs (disk module_world)
      \<lparr>hops = [''$'', ''lib''], leaf = Some ''util.js''\<rparr>
     = Some \<lparr>hops = [''$'', ''lib''], leaf = Some ''util.js''\<rparr>"
    by (rule hit)
  note none = b [THEN conjunct2, THEN conjunct1]
  from e2 e3 have s2: "try_candidate example_engine example_fs (disk module_world)
        (candidate ''nothing'' (origin_path ''nothing'' None ''$/lib'') ''.js'') = None"
    unfolding none by blast
  from e4 obtain p where p: "find_cjs_module example_engine example_fs (disk module_world)
      ''util'' None ''$/lib'' = Some p" by auto
  note first = a [THEN conjunct2, THEN conjunct2, THEN conjunct1, rule_format, OF p]
  note found = a [THEN conjunct2, THEN conjunct2, THEN conjunct2, THEN conjunct1, rule_format]
  from first found have "fs_fexist example_fs (disk module_world) (path_cstr p)" by blast
  with p have s3: "fs_fexist example_fs (disk module_world)
        (path_cstr (the (find_cjs_module example_engine example_fs (disk module_world) ''util''
                           None ''$/lib'')))"
    by simp
  note rel = c [THEN conjunct2, THEN conjunct2, THEN conjunct2, THEN conjunct2, THEN conjunct2,
      THEN conjunct2, THEN conjunct2, rule_format, OF e5]
  have s4: "js_require example_engine example_fs None ''./util'' module_world
       = (Threw (type_error ''relative require not allowed in global code''), module_world)"
    by (rule rel)
  note pk = a [THEN conjunct2, THEN conjunct2, THEN conjunct2, THEN conjunct2, THEN conjunct2,
      THEN conjunct2, THEN conjunct1, rule_format, OF e6]
  from e7 have s5: "try_candidate example_engine example_fs (disk module_world)
        \<lparr>hops = [''$'', ''lib'', ''pkg''], leaf = Some ''package.json''\<rparr>
     = Some \<lparr>hops = [''$'', ''lib'', ''pkg''], leaf = Some ''entry.js''\<rparr>"
    unfolding pk by blast
  note ms = a [THEN conjunct2, THEN conjunct2, THEN conjunct2, THEN conjunct2, THEN conjunct1,
      rule_format, OF e8]
  have s6: "try_candidate example_engine example_fs (disk module_world)
        \<lparr>hops = [''$'', ''lib''], leaf = Some ''missing.js''\<rparr> = None"
    by (rule ms)
  from s1 s2 s3 s4 s5 s6 show ?thesis by blast
qed

text \<open>
  C6, as stated, fails: required from the module \<^verbatim>\<open>$/main.js\<close>, the id
  \<^verbatim>\<open>./package.json\<close> has the existing file \<^verbatim>\<open>$/package.json\<close> as its first candidate, and
  that candidate is not returned: the file has no \<^verbatim>\<open>main\<close> and the search ends with
  nothing found.
\<close>

theorem find_cjs_module_counterexample:
  "path_cstr (candidate ''./package.json''
       (origin_path ''./package.json'' (Some ''$/main.js'') ''$/lib'') (filenames_table ! 0))
     = ''$/package.json''
   \<and> fs_fexist example_fs (disk module_world) ''$/package.json''
   \<and> find_cjs_module example_engine example_fs (disk module_world) ''./package.json''
        (Some ''$/main.js'') ''$/lib'' = None"
  by code_simp

section \<open>The module cache\<close>

lemma eval_hit:
  "moduleCache w filename = Some m \<Longrightarrow>
     eval_cjs_module E f filename as_mjs w = (Exports (module_exports w m), w)"
  by (simp add: eval_cjs_module_def have_module_def)

lemma load_times_hit:
  "moduleCache w filename = Some m \<Longrightarrow>
     load_times E f filename as_mjs n w = (replicate n (Exports (module_exports w m)), w)"
  by (induction n) (simp_all add: eval_hit)

lemma set_loaded_cache [simp]: "moduleCache (set_loaded m w) = moduleCache w"
  by (simp add: set_loaded_def split: option.splits)

lemma set_exports_cache [simp]: "moduleCache (set_exports m v w) = moduleCache w"
  by (simp add: set_exports_def split: option.splits)

lemma eval_threw:
  "eval_cjs_module E f filename as_mjs w = (Threw e, w') \<Longrightarrow> moduleCache w' filename = None"
  by (auto simp: eval_cjs_module_def have_module_def on_error_def Let_def new_module_def
      split: option.splits sum.splits prod.splits if_splits)

lemma eval_exports_cached:
  assumes "keeps_cache E" and "eval_cjs_module E f filename as_mjs w = (Exports v, w')"
  shows "\<exists>m. moduleCache w' filename = Some m \<and> module_exports w' m = v"
proof (cases "moduleCache w filename")
  case (Some m)
  with assms(2) show ?thesis by (auto simp: eval_hit)
next
  case None
  let ?m = "next_ref w"
  let ?w2 = "cache_module filename ?m (snd (new_module filename w))"
  have c2: "moduleCache ?w2 filename = Some ?m"
    by (simp add: cache_module_def)
  from assms(2) None obtain code where code: "fs_fslurp f (disk w) filename = Some code"
    by (auto simp: eval_cjs_module_def split: option.splits)
  show ?thesis
  proof (cases "path_extension (path_new filename) = ''.json''")
    case True
    with assms(2) None code obtain x where "json_decode E code = Inr x"
        and "(Exports v, w') = have_module ?m (set_loaded ?m (set_exports ?m x ?w2))"
      by (auto simp: eval_cjs_module_def Let_def new_module_def on_error_def split: sum.splits)
    then show ?thesis using c2 by (auto simp: have_module_def)
  next
    case False
    with assms(2) None code obtain compiled w3 where
      run: "run_module E compiled filename (path_cstr (path_strip (path_new filename))) ?m ?w2
              = (None, w3)"
      and res: "(Exports v, w') = have_module ?m (set_loaded ?m w3)"
      by (auto simp: eval_cjs_module_def Let_def new_module_def on_error_def
          split: sum.splits option.splits prod.splits)
    have "moduleCache w3 filename = Some ?m"
      using assms(1) c2 run unfolding keeps_cache_def by (metis snd_conv)
    then show ?thesis using res by (auto simp: have_module_def)
  qed
qed

lemma eval_runs_body:
  assumes "moduleCache w filename = None" and "fs_fslurp f (disk w) filename = Some code"
    and "path_extension (path_new filename) \<noteq> ''.json''"
    and "prepare_code E as_mjs code (typescript w) = Inr compiled"
  shows "(let m = next_ref w;
           w2 = cache_module filename m (snd (new_module filename w));
           ran = run_module E compiled filename (path_cstr (path_strip (path_new filename))) m w2
       in moduleCache w2 filename = Some m
          \<and> objects w2 m = Some \<lparr>exports = Object (Suc m), mod_filename = filename,
                                  mod_id = filename, loaded = False\<rparr>
          \<and> eval_cjs_module E f filename as_mjs w =
              (case fst ran of
                 Some e \<Rightarrow>
                   (Threw e, (snd ran)\<lparr>moduleCache := (moduleCache (snd ran))(filename := None)\<rparr>)
               | None \<Rightarrow>
                   (Exports (module_exports (set_loaded m (snd ran)) m), set_loaded m (snd ran))))"
  using assms
  by (simp add: eval_cjs_module_def Let_def new_module_def cache_module_def on_error_def
      have_module_def split: prod.splits option.splits)

lemma load_times_first:
  assumes "keeps_cache E" and "eval_cjs_module E f filename as_mjs w = (Exports v, w')"
  shows "load_times E' f filename as_mjs' n w' = (replicate n (Exports v), w')"
    and "load_times E f filename as_mjs (Suc n) w = (replicate (Suc n) (Exports v), w')"
proof -
  from eval_exports_cached[OF assms] obtain m where m: "moduleCache w' filename = Some m"
      "module_exports w' m = v" by blast
  then show a: "load_times E' f filename as_mjs' n w' = (replicate n (Exports v), w')"
    using load_times_hit by metis
  from m have "load_times E f filename as_mjs n w' = (replicate n (Exports v), w')"
    using load_times_hit by metis
  then show "load_times E f filename as_mjs (Suc n) w = (replicate (Suc n) (Exports v), w')"
    using assms(2) by simp
qed

text \<open>
  C5, as the code has it.  A record found in the cache is answered from: its exports
  are returned and nothing is executed.  For a file name without a record whose file
  holds code that compiles, the module record, with fresh exports and not yet loaded, is
  stored in the cache under the file name and the body is run once, on the world that
  holds it; if the body throws, the load throws and the record is removed from the cache
  the body left, and otherwise the load returns the module's exports in the world the
  body left, with the module marked loaded.  Whenever a load throws, the cache has no
  record under the file name afterwards.  When a load returns an exports value and
  module bodies leave the cache entries they find in place, loading the file name any
  number of times in a row returns that same value each time and ends in the world of
  the first load: the body has run once; and further loads leave that world as it is,
  whatever the engine would do if asked.
\<close>

theorem module_cache_idempotent:
  "(\<forall>m. moduleCache w filename = Some m \<longrightarrow>
        eval_cjs_module E f filename as_mjs w = (Exports (module_exports w m), w))
   \<and> (moduleCache w filename = None \<and> fs_fslurp f (disk w) filename = Some code
       \<and> path_extension (path_new filename) \<noteq> ''.json''
       \<and> prepare_code E as_mjs code (typescript w) = Inr compiled \<longrightarrow>
        (let m = next_ref w;
             w2 = cache_module filename m (snd (new_module filename w));
             ran = run_module E compiled filename (path_cstr (path_strip (path_new filename))) m w2
         in moduleCache w2 filename = Some m
            \<and> objects w2 m = Some \<lparr>exports = Object (Suc m), mod_filename = filename,
                                    mod_id = filename, loaded = False\<rparr>
            \<and> eval_cjs_module E f filename as_mjs w =
                (case fst ran of
                   Some e \<Rightarrow>
                     (Threw e,
                      (snd ran)\<lparr>moduleCache := (moduleCache (snd ran))(filename := None)\<rparr>)
                 | None \<Rightarrow>
                     (Exports (module_exports (set_loaded m (snd ran)) m),
                      set_loaded m (snd ran)))))
   \<and> (\<forall>e w'. eval_cjs_module E f filename as_mjs w = (Threw e, w') \<longrightarrow>
               moduleCache w' filename = None)
   \<and> (keeps_cache E \<longrightarrow>
        (\<forall>v w'. eval_cjs_module E f filename as_mjs w = (Exports v, w') \<longrightarrow>
           (\<forall>n. load_times E f filename as_mjs (Suc n) w = (replicate (Suc n) (Exports v), w'))
           \<and> (\<forall>E' as_mjs' n.
                 load_times E' f filename as_mjs' n w' = (replicate n (Exports v), w'))))"
proof (intro conjI allI impI)
  fix m
  assume "moduleCache w filename = Some m"
  then show "eval_cjs_module E f filename as_mjs w = (Exports (module_exports w m), w)"
    by (rule eval_hit)
next
  assume "moduleCache w filename = None \<and> fs_fslurp f (disk w) filename = Some code
       \<and> path_extension (path_new filename) \<noteq> ''.json''
       \<and> prepare_code E as_mjs code (typescript w) = Inr compiled"
  then show "(let m = next_ref w;
             w2 = cache_module filename m (snd (new_module filename w));
             ran = run_module E compiled filename (path_cstr (path_strip (path_new filename))) m w2
         in moduleCache w2 filename = Some m
            \<and> objects w2 m = Some \<lparr>exports = Object (Suc m), mod_filename = filename,
                                    mod_id = filename, loaded = False\<rparr>
            \<and> eval_cjs_module E f filename as_mjs w =
                (case fst ran of
                   Some e \<Rightarrow>
                     (Threw e,
                      (snd ran)\<lparr>moduleCache := (moduleCache (snd ran))(filename := None)\<rparr>)
                 | None \<Rightarrow>
                     (Exports (module_exports (set_loaded m (snd ran)) m),
                      set_loaded m (snd ran))))"
    using eval_runs_body[of w filename f code E as_mjs compiled] by blast
next
  fix e w'
  assume "eval_cjs_module E f filename as_mjs w = (Threw e, w')"
  then show "moduleCache w' filename = None" by (rule eval_threw)
next
  fix v w' n
  assume "keeps_cache E" and "eval_cjs_module E f filename as_mjs w = (Exports v, w')"
  then show "load_times E f filename as_mjs (Suc n) w = (replicate (Suc n) (Exports v), w')"
    by (rule load_times_first(2))
next
  fix v w' E' as_mjs' n
  assume "keeps_cache E" and "eval_cjs_module E f filename as_mjs w = (Exports v, w')"
  then show "load_times E' f filename as_mjs' n w' = (replicate n (Exports v), w')"
    by (rule load_times_first(1))
qed


theorem module_cache_idempotent_witness:
  "fst (load_times chatty_engine example_fs ''$/lib/util.js'' False 3 module_world)
     = [Exports (Object 1), Exports (Object 1), Exports (Object 1)]
   \<and> messages (vis (snd (load_times chatty_engine example_fs ''$/lib/util.js'' False 3
                          module_world)))
     = [PrintMsg ''body runs'']
   \<and> fst (load_times throwing_engine example_fs ''$/lib/util.js'' False 3
            (snd (eval_cjs_module chatty_engine example_fs ''$/lib/util.js'' False module_world)))
     = [Exports (Object 1), Exports (Object 1), Exports (Object 1)]
   \<and> moduleCache
        (snd (eval_cjs_module throwing_engine example_fs ''$/lib/util.js'' False module_world))
        ''$/lib/util.js'' = None"
proof -
  let ?ok = "eval_cjs_module chatty_engine example_fs ''$/lib/util.js'' False module_world"
  let ?bad = "eval_cjs_module throwing_engine example_fs ''$/lib/util.js'' False module_world"
  let ?w2 = "cache_module ''$/lib/util.js'' (next_ref module_world)
               (snd (new_module ''$/lib/util.js'' module_world))"
  let ?ran = "run_module chatty_engine (wrap_first ''exports.x = 1;'') ''$/lib/util.js''
                (path_cstr (path_strip (path_new ''$/lib/util.js''))) (next_ref module_world) ?w2"
  note a = module_cache_idempotent
    [where w = module_world and filename = "''$/lib/util.js''" and E = chatty_engine
       and f = example_fs and as_mjs = False and code = "''exports.x = 1;''"
       and compiled = "wrap_first ''exports.x = 1;''"]
  note b = module_cache_idempotent
    [where w = module_world and filename = "''$/lib/util.js''" and E = throwing_engine
       and f = example_fs and as_mjs = False and code = "''exports.x = 1;''"
       and compiled = "wrap_first ''exports.x = 1;''"]
  have h: "moduleCache module_world ''$/lib/util.js'' = None
      \<and> fs_fslurp example_fs (disk module_world) ''$/lib/util.js'' = Some ''exports.x = 1;''
      \<and> path_extension (path_new ''$/lib/util.js'') \<noteq> ''.json''
      \<and> prepare_code chatty_engine False ''exports.x = 1;'' (typescript module_world)
          = Inr (wrap_first ''exports.x = 1;'')"
    by code_simp
  have r: "fst ?ran = None" by code_simp
  have x: "module_exports (set_loaded (next_ref module_world) (snd ?ran)) (next_ref module_world)
      = Object 1" by code_simp
  have m: "messages (vis (set_loaded (next_ref module_world) (snd ?ran))) = [PrintMsg ''body runs'']"
    by code_simp
  have k1: "keeps_cache chatty_engine"
    by (simp add: keeps_cache_def chatty_engine_def)
  from a [THEN conjunct2, THEN conjunct1, rule_format, OF h]
  have "?ok = (case fst ?ran of
                   Some e \<Rightarrow>
                     (Threw e,
                      (snd ?ran)\<lparr>moduleCache := (moduleCache (snd ?ran))(''$/lib/util.js'' := None)\<rparr>)
                 | None \<Rightarrow>
                     (Exports (module_exports (set_loaded (next_ref module_world) (snd ?ran))
                        (next_ref module_world)),
                      set_loaded (next_ref module_world) (snd ?ran)))"
    unfolding Let_def by blast
  then have e1: "?ok = (Exports (Object 1), set_loaded (next_ref module_world) (snd ?ran))"
    unfolding r x by simp
  note c = a [THEN conjunct2, THEN conjunct2, THEN conjunct2, rule_format, OF k1 e1]
  from c have "load_times chatty_engine example_fs ''$/lib/util.js'' False (Suc 2) module_world
      = (replicate (Suc 2) (Exports (Object 1)), set_loaded (next_ref module_world) (snd ?ran))"
    by blast
  then have l: "load_times chatty_engine example_fs ''$/lib/util.js'' False 3 module_world
      = ([Exports (Object 1), Exports (Object 1), Exports (Object 1)],
         set_loaded (next_ref module_world) (snd ?ran))"
    by (simp add: numeral_3_eq_3)
  have s1: "fst (load_times chatty_engine example_fs ''$/lib/util.js'' False 3 module_world)
     = [Exports (Object 1), Exports (Object 1), Exports (Object 1)]"
    unfolding l by simp
  have s2: "messages (vis (snd (load_times chatty_engine example_fs ''$/lib/util.js'' False 3
                          module_world))) = [PrintMsg ''body runs'']"
    unfolding l using m by simp
  from c have "load_times throwing_engine example_fs ''$/lib/util.js'' False 3
      (set_loaded (next_ref module_world) (snd ?ran))
      = (replicate 3 (Exports (Object 1)), set_loaded (next_ref module_world) (snd ?ran))"
    by blast
  then have s3: "fst (load_times throwing_engine example_fs ''$/lib/util.js'' False 3 (snd ?ok))
      = [Exports (Object 1), Exports (Object 1), Exports (Object 1)]"
    unfolding e1 by (simp add: numeral_3_eq_3)
  have "fst ?bad = Threw \<lparr>kind = Error, message = ''boom'', fileName = ''$/lib/util.js'',
      lineNumber = 1\<rparr>" by code_simp
  then have e2: "?bad = (Threw \<lparr>kind = Error, message = ''boom'', fileName = ''$/lib/util.js'',
      lineNumber = 1\<rparr>, snd ?bad)" by (metis prod.collapse)
  note d = b [THEN conjunct2, THEN conjunct2, THEN conjunct1, rule_format, OF e2]
  have s4: "moduleCache (snd ?bad) ''$/lib/util.js'' = None" by (rule d)
  from s1 s2 s3 s4 show ?thesis by blast
qed

text \<open>
  C5, as stated, fails: a module body that removes its own record from the cache does
  not throw, and the next load of the same file name runs the body again and returns
  another exports object.
\<close>

theorem module_reload_counterexample:
  "fst (eval_cjs_module forgetful_engine example_fs ''$/lib/util.js'' False module_world)
     = Exports (Object 1)
   \<and> fst (eval_cjs_module forgetful_engine example_fs ''$/lib/util.js'' False
            (snd (eval_cjs_module forgetful_engine example_fs ''$/lib/util.js'' False
                    module_world)))
     = Exports (Object 3)
   \<and> messages (vis (snd (eval_cjs_module forgetful_engine example_fs ''$/lib/util.js'' False
            (snd (eval_cjs_module forgetful_engine example_fs ''$/lib/util.js'' False
                    module_world)))))
     = [PrintMsg ''body runs'', PrintMsg ''body runs'']"
  by code_simp

end
